theory Spec2Isabelle
  imports Complex_Main "HOL-Library.AList"
begin

section \<open>Data model\<close>

text \<open>
  A pandas cell is missing (\<open>NaN\<close>/\<open>None\<close>), a number or a string. A number is a
  real: the rounding of a float64 operation whose result is finite is not modelled. What
  the dtype of a column changes beyond that (the wrap-around of int64 arithmetic, the
  rounding of an int64 converted to float64, the overflow of float64 to an infinity) is
  written out in the section on machine numbers and used by Cap, Normalize and Scale.
\<close>

datatype cell = NaN | Num real | Str string

fun isnull :: "cell \<Rightarrow> bool" where
  "isnull NaN = True"
| "isnull _ = False"

fun is_str :: "cell \<Rightarrow> bool" where
  "is_str (Str _) = True"
| "is_str _ = False"

datatype dtype =
  Int8 | Int16 | Int32 | Int64 | Float32 | Float64 | Bool | Object | NpStr | Datetime64

text \<open>
  A dataset is a DataFrame: its columns in order, each with its dtype and its cells.
  \<open>df[var]\<close> on an absent column raises KeyError; \<open>df[var] = values\<close> replaces the
  column in place, or appends it when the name is new. \<open>df_assign\<close> is the assignment
  of values of the column's own dtype (float64 for a new column), \<open>df_set\<close> the
  assignment of a column together with its dtype.
\<close>

record column =
  dtype :: dtype
  cells :: "cell list"

type_synonym dataset = "(string \<times> column) list"

definition df_columns :: "dataset \<Rightarrow> string list" where
  "df_columns df = map fst df"

definition df_assign :: "dataset \<Rightarrow> string \<Rightarrow> cell list \<Rightarrow> dataset" where
  "df_assign df var vs =
     (case map_of df var of
        None \<Rightarrow> AList.update var \<lparr>dtype = Float64, cells = vs\<rparr> df
      | Some c \<Rightarrow> AList.update var (c\<lparr>cells := vs\<rparr>) df)"

definition df_set :: "dataset \<Rightarrow> string \<Rightarrow> column \<Rightarrow> dataset" where
  "df_set df var c = AList.update var c df"

definition df_drop :: "dataset \<Rightarrow> string list \<Rightarrow> dataset" where
  "df_drop df names = filter (\<lambda>(n, c). n \<notin> set names) df"

text \<open>
  Every raise of the source, and every exception the pandas operations it calls raise on
  the modelled inputs, is a value of \<open>error\<close>. \<open>NumpyError\<close> is the outcome of a numpy
  operation that is a parameter of the model (see the machine numbers) and has no result
  in it.
\<close>

datatype error =
    KeyError string
  | IndexError
  | NotFoundValue string string
  | StdZero string
  | MaxEqualMin string
  | ReferenceMissing
  | WrongType string
  | ConfigCheckFailed
  | TargetNeeded
  | UnboundLocal string
  | TypeErr
  | ValueErr string
  | AttributeErr
  | ZeroDivision
  | NumpyError

text \<open>
  The configuration/reference table: one row per variable. \<open>header\<close> is the list of
  column names of the DataFrame; \<open>Mean\<close>, \<open>Std\<close>, \<open>Min\<close> and \<open>Max\<close> exist only after
  Normalize.fit or Scale.fit has merged them in, and \<open>Ind_WOE\<close> may be absent (the source
  guards its reads with try/except), so reads of these five columns check the header. The
  other columns of the schema are taken to be present. The indicator columns hold
  integers; \<open>Cap_Value\<close>, \<open>Floor_Value\<close> and the four statistics are float columns,
  \<open>None\<close> standing for NaN, so that \<open>float(v)\<close> on their cells is the identity;
  \<open>Missing_Impute\<close> and \<open>WOE_Bin\<close> hold any cell. The four statistics are written by
  \<open>pd.merge\<close> from lists of numpy scalars, so their columns are int64 or float64:
  \<open>stat_dtype\<close> gives the dtype of each by its column name.
\<close>

record cfg_row =
  Var_Name :: string
  Var_Type :: string
  Ind_Model :: int
  Ind_Cap :: int
  Cap_Value :: "real option"
  Ind_Floor :: int
  Floor_Value :: "real option"
  Missing_Impute :: cell
  Ind_WOE :: int
  WOE_Bin :: cell
  Ind_Norm :: int
  Ind_Scale :: int
  Mean_Value :: "real option"
  Std_Value :: "real option"
  Min_Value :: "real option"
  Max_Value :: "real option"

record table =
  header :: "string list"
  rows :: "cfg_row list"
  stat_dtype :: "string \<Rightarrow> dtype"

text \<open>\<open>t[t['Var_Name'] == var]\<close>: the rows of a variable, in table order.\<close>

definition rows_of :: "table \<Rightarrow> string \<Rightarrow> cfg_row list" where
  "rows_of t var = filter (\<lambda>r. Var_Name r = var) (rows t)"

text \<open>\<open>....iloc[0]\<close>: the first selected row, IndexError when the selection is empty.\<close>

definition iloc0 :: "'a list \<Rightarrow> error + 'a" where
  "iloc0 xs = (case xs of [] \<Rightarrow> Inl IndexError | x # _ \<Rightarrow> Inr x)"

text \<open>Sequencing of fallible steps: the first error ends the computation, as a raise does.\<close>

definition ebind :: "error + 'a \<Rightarrow> ('a \<Rightarrow> error + 'b) \<Rightarrow> error + 'b" where
  "ebind m f = (case m of Inl e \<Rightarrow> Inl e | Inr x \<Rightarrow> f x)"

definition df_col :: "dataset \<Rightarrow> string \<Rightarrow> error + column" where
  "df_col df var = (case map_of df var of None \<Rightarrow> Inl (KeyError var) | Some c \<Rightarrow> Inr c)"

text \<open>
  \<open>t[col][t['Var_Name'] == var].iloc[0]\<close> for a column that may be absent from the
  table: KeyError on the column first, IndexError when the variable has no row.
\<close>

definition ref_value :: "table \<Rightarrow> string \<Rightarrow> (cfg_row \<Rightarrow> 'a) \<Rightarrow> string \<Rightarrow> error + 'a" where
  "ref_value t col field var =
     (if col \<notin> set (header t) then Inl (KeyError col)
      else ebind (iloc0 (rows_of t var)) (\<lambda>r. Inr (field r)))"

text \<open>
  A transform component (Cap, Floor, MissingImpute, Normalize, Scale): the config it was
  built with, its own reference table and its apply list.
\<close>

record component =
  config :: table
  reference :: table
  apply_list :: "string list"

definition flagged :: "table \<Rightarrow> (cfg_row \<Rightarrow> bool) \<Rightarrow> string list" where
  "flagged t p = map Var_Name (filter (\<lambda>r. Ind_Model r = 1 \<and> p r) (rows t))"

definition new_component :: "table \<Rightarrow> (cfg_row \<Rightarrow> bool) \<Rightarrow> string list option \<Rightarrow> component" where
  "new_component df_config p al =
     \<lparr>config = df_config, reference = df_config,
      apply_list = (case al of None \<Rightarrow> flagged df_config p | Some l \<Rightarrow> l)\<rparr>"

text \<open>
  Comparing a string cell with a number is a TypeError; the numerical transforms test the
  column for strings before they compare.
\<close>

definition num_only :: "cell list \<Rightarrow> bool" where
  "num_only cs = list_all (\<lambda>c. \<not> is_str c) cs"

section \<open>Machine numbers\<close>

text \<open>
  int64 arithmetic wraps around modulo \<open>2^64\<close>.
\<close>

definition wrap64 :: "int \<Rightarrow> int" where
  "wrap64 z = (z + 2 ^ 63) mod 2 ^ 64 - 2 ^ 63"

definition is_int64 :: "real \<Rightarrow> bool" where
  "is_int64 x = (x = of_int \<lfloor>x\<rfloor> \<and> - (2 ^ 63) \<le> x \<and> x < 2 ^ 63)"

text \<open>
  The conversion of an int64 to float64: exact up to 53 bits, and beyond that the nearest
  multiple of \<open>2^(k - 53)\<close> for a number of \<open>k\<close> bits, a tie going to the even
  significand.
\<close>

fun bitlen :: "nat \<Rightarrow> nat" where
  "bitlen n = (if n = 0 then 0 else Suc (bitlen (n div 2)))"

declare bitlen.simps [simp del]

definition round_half_even :: "int \<Rightarrow> int \<Rightarrow> int" where
  "round_half_even n q =
     (let d = n div q; r = n mod q in
      if 2 * r < q then d else if 2 * r > q then d + 1 else if even d then d else d + 1)"

definition float64_of_int :: "int \<Rightarrow> real" where
  "float64_of_int n =
     (let k = bitlen (nat \<bar>n\<bar>) in
      if k \<le> 53 then of_int n
      else of_int (round_half_even n (2 ^ (k - 53)) * 2 ^ (k - 53)))"

text \<open>
  The cells of a column as float64 values, for the dtypes numpy converts to float64 when
  the other operand is a float64 scalar: float64 itself and the integer dtypes. \<open>None\<close>
  for another dtype and for a cell the dtype cannot hold.
\<close>

fun to_float64 :: "dtype \<Rightarrow> cell \<Rightarrow> cell option" where
  "to_float64 d (Str s) = None"
| "to_float64 d NaN = (if d = Float64 then Some NaN else None)"
| "to_float64 d (Num x) =
     (if d = Float64 then Some (Num x)
      else if d \<in> {Int8, Int16, Int32, Int64} \<and> is_int64 x
      then Some (Num (float64_of_int \<lfloor>x\<rfloor>))
      else None)"

text \<open>
  A float64 result: NaN, a finite number, or an infinity with its sign (\<open>True\<close> is
  \<open>+inf\<close>). The largest finite float64 is \<open>2^1024 - 2^971\<close>. A difference within that
  bound is finite; one of magnitude \<open>2^1024\<close> or more is an infinity; between the two
  the rounding decides, and the model gives no result (\<open>None\<close>).
\<close>

datatype xfloat = FNaN | FNum real | FInf bool

definition fits_float64 :: "real \<Rightarrow> bool" where
  "fits_float64 r = (\<bar>r\<bar> \<le> 2 ^ 1024 - 2 ^ 971)"

definition fsub64 :: "real \<Rightarrow> real \<Rightarrow> xfloat option" where
  "fsub64 a b =
     (if fits_float64 (a - b) then Some (FNum (a - b))
      else if \<bar>a - b\<bar> \<ge> 2 ^ 1024 then Some (FInf (a - b > 0))
      else None)"

fun sub64_cell :: "real \<Rightarrow> cell \<Rightarrow> xfloat option" where
  "sub64_cell a (Num x) = fsub64 x a"
| "sub64_cell a NaN = Some FNaN"
| "sub64_cell a (Str s) = None"

text \<open>
  Division of float64 values by a divisor that is not zero. The quotient of two finite
  numbers is kept as the real number, also where float64 gives the infinity of its sign.
\<close>

fun fdiv64 :: "xfloat \<Rightarrow> xfloat \<Rightarrow> xfloat" where
  "fdiv64 (FNum n) (FNum d) = FNum (n / d)"
| "fdiv64 (FNum n) (FInf t) = FNum 0"
| "fdiv64 (FInf s) (FNum d) = FInf (s = (d > 0))"
| "fdiv64 (FInf s) (FInf t) = FNaN"
| "fdiv64 FNaN d = FNaN"
| "fdiv64 n FNaN = FNaN"

section \<open>Library functions the source calls\<close>

text \<open>
  pandas' \<open>mean\<close>, \<open>min\<close> and \<open>max\<close> skip missing values and give NaN on a column
  without values; on a column holding strings they are a TypeError.
\<close>

definition nums :: "cell list \<Rightarrow> real list" where
  "nums cs = concat (map (\<lambda>c. case c of Num x \<Rightarrow> [x] | _ \<Rightarrow> []) cs)"

definition col_stat :: "(real list \<Rightarrow> real option) \<Rightarrow> cell list \<Rightarrow> error + real option" where
  "col_stat f cs = (if \<not> num_only cs then Inl TypeErr else Inr (f (nums cs)))"

definition pd_mean :: "real list \<Rightarrow> real option" where
  "pd_mean xs = (if xs = [] then None else Some (sum_list xs / real (length xs)))"

definition pd_min :: "real list \<Rightarrow> real option" where
  "pd_min xs = (case xs of [] \<Rightarrow> None | x # ys \<Rightarrow> Some (fold min ys x))"

definition pd_max :: "real list \<Rightarrow> real option" where
  "pd_max xs = (case xs of [] \<Rightarrow> None | x # ys \<Rightarrow> Some (fold max ys x))"

fun cell_of :: "real option \<Rightarrow> cell" where
  "cell_of None = NaN"
| "cell_of (Some x) = Num x"

text \<open>
  The remaining library functions and the binning engine (module \<open>woe_tools\<close>, which
  computes the bins and evidence weights) are parameters of the model: quantile, median,
  standard deviation and mode of pandas on the non-missing values, Python's \<open>float\<close> on a
  string (None for its ValueError), and the engine's string normalisation and binning
  functions. The constant arguments the source passes (\<open>max_bins=6\<close>, \<open>missing=True\<close>,
  \<open>missing_value='-1'\<close>) are part of the parameter. So is numpy on the columns the
  machine numbers above do not cover (float32, bool, object and the others):
  \<open>np_where_gt\<close> is \<open>np.where(x > cap, cap, x)\<close>, \<open>np_normalize\<close> is
  \<open>(x - mean) / std\<close> and \<open>np_scale\<close> is \<open>(x - min) / (max - min)\<close>, each given the
  dtypes of its operands and returning the dtype and the values of the result, \<open>None\<close>
  when there is none.
\<close>

record woe_row =
  woe_Var_Name :: string
  woe_Var_Type :: string
  Var_Value :: cell
  Ref_Value :: cell

type_synonym woe_table = "woe_row list"

record external =
  pd_quantile :: "real \<Rightarrow> real list \<Rightarrow> real option"
  pd_median :: "real list \<Rightarrow> real option"
  pd_std :: "real list \<Rightarrow> real option"
  pd_mode :: "cell list \<Rightarrow> cell list"
  py_float :: "string \<Rightarrow> real option"
  str_convert :: "cell \<Rightarrow> cell"
  numwoe_aptbinning :: "dataset \<Rightarrow> string \<Rightarrow> real list \<Rightarrow> string option \<Rightarrow> error + woe_table"
  numwoe_autobinning :: "dataset \<Rightarrow> string \<Rightarrow> string option \<Rightarrow> error + woe_table"
  catwoe_autobinning :: "dataset \<Rightarrow> string \<Rightarrow> string option \<Rightarrow> error + woe_table"
  num_bin_value :: "woe_table \<Rightarrow> cell \<Rightarrow> cell"
  cat_bin_value :: "woe_table \<Rightarrow> cell \<Rightarrow> cell"
  np_where_gt :: "dtype \<Rightarrow> real \<Rightarrow> cell list \<Rightarrow> column option"
  np_normalize :: "dtype \<Rightarrow> dtype \<Rightarrow> dtype \<Rightarrow> real \<Rightarrow> real \<Rightarrow> cell list \<Rightarrow> column option"
  np_scale ::
    "dtype \<Rightarrow> dtype \<Rightarrow> dtype \<Rightarrow> real \<Rightarrow> real \<Rightarrow> cell list \<Rightarrow> (dtype \<times> xfloat list) option"

text \<open>\<open>float(v)\<close> on a cell of the table.\<close>

fun float_cell :: "external \<Rightarrow> cell \<Rightarrow> error + cell" where
  "float_cell ext NaN = Inr NaN"
| "float_cell ext (Num x) = Inr (Num x)"
| "float_cell ext (Str s) =
     (case py_float ext s of None \<Rightarrow> Inl (ValueErr s) | Some x \<Rightarrow> Inr (Num x))"

text \<open>\<open>t.loc[t['Var_Name'] == var, col] = v\<close>: every row of the variable is updated.\<close>

definition set_rows :: "table \<Rightarrow> string \<Rightarrow> (cfg_row \<Rightarrow> cfg_row) \<Rightarrow> table" where
  "set_rows t var upd = t\<lparr>rows := map (\<lambda>r. if Var_Name r = var then upd r else r) (rows t)\<rparr>"

section \<open>Cap\<close>

definition Cap_init :: "table \<Rightarrow> string list option \<Rightarrow> component" where
  "Cap_init df_config al = new_component df_config (\<lambda>r. Ind_Cap r = 1) al"

fun Cap_fit_loop :: "external \<Rightarrow> table \<Rightarrow> string list \<Rightarrow> dataset \<Rightarrow> table \<Rightarrow> error + table" where
  "Cap_fit_loop ext cfg [] df_master ref = Inr ref"
| "Cap_fit_loop ext cfg (var # vars) df_master ref =
     ebind (iloc0 (rows_of cfg var)) (\<lambda>df_config_var.
       ebind (case Cap_Value df_config_var of
                None \<Rightarrow> ebind (df_col df_master var) (\<lambda>c.
                          col_stat (pd_quantile ext (99 / 100)) (cells c))
              | Some v \<Rightarrow> Inr (Some v)) (\<lambda>cap_value.
         Cap_fit_loop ext cfg vars df_master
           (set_rows ref var (\<lambda>r. r\<lparr>Cap_Value := cap_value\<rparr>))))"

definition Cap_fit :: "external \<Rightarrow> component \<Rightarrow> dataset \<Rightarrow> error + component" where
  "Cap_fit ext self df_master =
     ebind (Cap_fit_loop ext (config self) (apply_list self) df_master (reference self))
       (\<lambda>ref. Inr (self\<lparr>reference := ref\<rparr>))"

text \<open>
  \<open>np.where(x > cap_value, cap_value, x)\<close> on one float64 cell; \<open>NaN > cap_value\<close> is
  False.
\<close>

fun cap_cell :: "real \<Rightarrow> cell \<Rightarrow> cell" where
  "cap_cell cap_value (Num x) = (if x > cap_value then Num cap_value else Num x)"
| "cap_cell cap_value c = c"

text \<open>
  \<open>cap_value\<close> is a Python float, so the comparison and the selection of \<open>np.where\<close>
  both work on the column converted to float64, and the column assigned is float64: an
  int64 value beyond 53 bits is rounded, whichever side of the cap it is on.
\<close>

definition cap_series :: "external \<Rightarrow> real \<Rightarrow> column \<Rightarrow> error + column" where
  "cap_series ext cap_value c =
     (if \<not> num_only (cells c) then Inl TypeErr
      else case those (map (to_float64 (dtype c)) (cells c)) of
             Some xs \<Rightarrow> Inr \<lparr>dtype = Float64, cells = map (cap_cell cap_value) xs\<rparr>
           | None \<Rightarrow>
               (case np_where_gt ext (dtype c) cap_value (cells c) of
                  None \<Rightarrow> Inl NumpyError
                | Some c' \<Rightarrow> Inr c'))"

fun Cap_apply_loop :: "external \<Rightarrow> table \<Rightarrow> string list \<Rightarrow> dataset \<Rightarrow> error + dataset" where
  "Cap_apply_loop ext ref [] df_master = Inr df_master"
| "Cap_apply_loop ext ref (var # vars) df_master =
     ebind (iloc0 (rows_of ref var)) (\<lambda>r.
       case Cap_Value r of
         None \<Rightarrow> Inl (NotFoundValue ''cap'' var)
       | Some cap_value \<Rightarrow>
           ebind (df_col df_master var) (\<lambda>c.
             ebind (cap_series ext cap_value c) (\<lambda>c'.
               Cap_apply_loop ext ref vars (df_set df_master var c'))))"

definition Cap_apply :: "external \<Rightarrow> component \<Rightarrow> dataset \<Rightarrow> error + dataset" where
  "Cap_apply ext self df_master =
     Cap_apply_loop ext (reference self) (apply_list self) df_master"

section \<open>Floor\<close>

definition Floor_init :: "table \<Rightarrow> string list option \<Rightarrow> component" where
  "Floor_init df_config al = new_component df_config (\<lambda>r. Ind_Floor r = 1) al"

text \<open>\<open>min(5 * q, 0)\<close>; Python's \<open>min\<close> returns its first argument when that is NaN.\<close>

fun floor_of_quantile :: "real option \<Rightarrow> real option" where
  "floor_of_quantile None = None"
| "floor_of_quantile (Some q) = Some (min (5 * q) 0)"

fun Floor_fit_loop :: "external \<Rightarrow> table \<Rightarrow> string list \<Rightarrow> dataset \<Rightarrow> table \<Rightarrow> error + table" where
  "Floor_fit_loop ext cfg [] df_master ref = Inr ref"
| "Floor_fit_loop ext cfg (var # vars) df_master ref =
     ebind (iloc0 (rows_of cfg var)) (\<lambda>df_config_var.
       ebind (case Floor_Value df_config_var of
                None \<Rightarrow> ebind (df_col df_master var) (\<lambda>c.
                          ebind (col_stat (pd_quantile ext (1 / 100)) (cells c)) (\<lambda>q.
                            Inr (floor_of_quantile q)))
              | Some v \<Rightarrow> Inr (Some v)) (\<lambda>floor_value.
         Floor_fit_loop ext cfg vars df_master
           (set_rows ref var (\<lambda>r. r\<lparr>Floor_Value := floor_value\<rparr>))))"

definition Floor_fit :: "external \<Rightarrow> component \<Rightarrow> dataset \<Rightarrow> error + component" where
  "Floor_fit ext self df_master =
     ebind (Floor_fit_loop ext (config self) (apply_list self) df_master (reference self))
       (\<lambda>ref. Inr (self\<lparr>reference := ref\<rparr>))"

text \<open>
  In Floor.apply the \<open>np.where\<close> assignment is indented under the \<open>raise\<close> of the
  null check, so it is never executed: the loop body only reads the floor value and
  raises when it is null.
\<close>

fun Floor_apply_loop :: "table \<Rightarrow> string list \<Rightarrow> dataset \<Rightarrow> error + dataset" where
  "Floor_apply_loop ref [] df_master = Inr df_master"
| "Floor_apply_loop ref (var # vars) df_master =
     ebind (iloc0 (rows_of ref var)) (\<lambda>r.
       case Floor_Value r of
         None \<Rightarrow> Inl (NotFoundValue ''floor'' var)
       | Some floor_value \<Rightarrow> Floor_apply_loop ref vars df_master)"

definition Floor_apply :: "component \<Rightarrow> dataset \<Rightarrow> error + dataset" where
  "Floor_apply self df_master = Floor_apply_loop (reference self) (apply_list self) df_master"

text \<open>
  What the docstring of Floor.apply and the sibling Cap.apply describe:
  \<open>np.where(x < floor_value, floor_value, x)\<close> on one cell.
\<close>

fun floor_cell :: "real \<Rightarrow> cell \<Rightarrow> cell" where
  "floor_cell floor_value (Num x) = (if x < floor_value then Num floor_value else Num x)"
| "floor_cell floor_value c = c"

section \<open>MissingImpute\<close>

definition MissingImpute_init :: "table \<Rightarrow> string list option \<Rightarrow> component" where
  "MissingImpute_init df_config al =
     new_component df_config (\<lambda>r. \<not> isnull (Missing_Impute r)) al"

text \<open>\<open>missing_cnt[missing_cnt > 0].index\<close>: the columns holding a missing value.\<close>

definition missing_vars :: "dataset \<Rightarrow> string list" where
  "missing_vars df = map fst (filter (\<lambda>(n, c). list_ex isnull (cells c)) df)"

definition impute_value_of :: "external \<Rightarrow> cfg_row \<Rightarrow> dataset \<Rightarrow> string \<Rightarrow> error + cell" where
  "impute_value_of ext df_config_var df_master var =
     (if Var_Type df_config_var = ''numerical'' then
        (if Missing_Impute df_config_var = Str ''mean'' then
           ebind (df_col df_master var) (\<lambda>c.
             ebind (col_stat pd_mean (cells c)) (\<lambda>m. Inr (cell_of m)))
         else if Missing_Impute df_config_var = Str ''median'' then
           ebind (df_col df_master var) (\<lambda>c.
             ebind (col_stat (pd_median ext) (cells c)) (\<lambda>m. Inr (cell_of m)))
         else if \<not> isnull (Missing_Impute df_config_var) then
           float_cell ext (Missing_Impute df_config_var)
         else Inr NaN)
      else if Var_Type df_config_var = ''categorical'' then
        (if Missing_Impute df_config_var = Str ''mode'' then
           ebind (df_col df_master var) (\<lambda>c. iloc0 (pd_mode ext (cells c)))
         else if \<not> isnull (Missing_Impute df_config_var) then
           Inr (Missing_Impute df_config_var)
         else Inr NaN)
      else Inl (WrongType var))"

text \<open>
  The fit loop runs over every in-model variable of the config, not over the apply list.
  Its warning about a variable with missing values and no impute value is console output
  only.
\<close>

fun MissingImpute_fit_loop ::
  "external \<Rightarrow> table \<Rightarrow> string list \<Rightarrow> dataset \<Rightarrow> table \<Rightarrow> error + table" where
  "MissingImpute_fit_loop ext cfg [] df_master ref = Inr ref"
| "MissingImpute_fit_loop ext cfg (var # vars) df_master ref =
     ebind (iloc0 (rows_of cfg var)) (\<lambda>df_config_var.
       ebind (impute_value_of ext df_config_var df_master var) (\<lambda>impute_value.
         MissingImpute_fit_loop ext cfg vars df_master
           (set_rows ref var (\<lambda>r. r\<lparr>Missing_Impute := impute_value\<rparr>))))"

definition MissingImpute_fit :: "external \<Rightarrow> component \<Rightarrow> dataset \<Rightarrow> error + component" where
  "MissingImpute_fit ext self df_master =
     ebind (MissingImpute_fit_loop ext (config self) (flagged (config self) (\<lambda>r. True))
              df_master (reference self))
       (\<lambda>ref. Inr (self\<lparr>reference := ref\<rparr>))"

fun fillna :: "cell \<Rightarrow> cell \<Rightarrow> cell" where
  "fillna impute_value NaN = impute_value"
| "fillna impute_value c = c"

text \<open>\<open>missing_vars\<close> is computed once, before the loop, as in the source.\<close>

fun MissingImpute_apply_loop ::
  "external \<Rightarrow> table \<Rightarrow> string list \<Rightarrow> string list \<Rightarrow> dataset \<Rightarrow> error + dataset" where
  "MissingImpute_apply_loop ext ref mvars [] df_master = Inr df_master"
| "MissingImpute_apply_loop ext ref mvars (var # vars) df_master =
     (if var \<notin> set mvars then MissingImpute_apply_loop ext ref mvars vars df_master
      else
        ebind (iloc0 (rows_of ref var)) (\<lambda>r.
          ebind (if Var_Type r = ''numerical'' then float_cell ext (Missing_Impute r)
                 else Inr (Missing_Impute r)) (\<lambda>impute_value.
            if isnull impute_value then Inl (NotFoundValue ''impute'' var)
            else
              ebind (df_col df_master var) (\<lambda>c.
                MissingImpute_apply_loop ext ref mvars vars
                  (df_assign df_master var (map (fillna impute_value) (cells c)))))))"

definition MissingImpute_apply :: "external \<Rightarrow> component \<Rightarrow> dataset \<Rightarrow> error + dataset" where
  "MissingImpute_apply ext self df_master =
     MissingImpute_apply_loop ext (reference self) (missing_vars df_master)
       (apply_list self) df_master"

section \<open>Woe\<close>

record woe_component =
  woe_config :: table
  woe_reference :: "woe_table option"
  woe_target :: "string option"
  woe_apply_list :: "string list"

definition Woe_init ::
  "table \<Rightarrow> string option \<Rightarrow> woe_table option \<Rightarrow> string list option \<Rightarrow> woe_component" where
  "Woe_init df_config tgt woe_ref al =
     \<lparr>woe_config = df_config, woe_reference = woe_ref, woe_target = tgt,
      woe_apply_list =
        (case al of None \<Rightarrow> flagged df_config (\<lambda>r. Ind_WOE r = 1) | Some l \<Rightarrow> l)\<rparr>"

text \<open>\<open>s.split(',')\<close> and \<open>i.strip('[] ')\<close> of Python.\<close>

fun split_on :: "char \<Rightarrow> string \<Rightarrow> string list" where
  "split_on d [] = [[]]"
| "split_on d (c # cs) =
     (if c = d then [] # split_on d cs
      else (case split_on d cs of [] \<Rightarrow> [[c]] | w # ws \<Rightarrow> (c # w) # ws))"

definition strip :: "string \<Rightarrow> string \<Rightarrow> string" where
  "strip chars s =
     rev (dropWhile (\<lambda>c. c \<in> set chars) (rev (dropWhile (\<lambda>c. c \<in> set chars) s)))"

fun mapE :: "('a \<Rightarrow> error + 'b) \<Rightarrow> 'a list \<Rightarrow> error + 'b list" where
  "mapE f [] = Inr []"
| "mapE f (x # xs) = ebind (f x) (\<lambda>y. ebind (mapE f xs) (\<lambda>ys. Inr (y # ys)))"

definition parse_woe_bin :: "external \<Rightarrow> cell \<Rightarrow> error + real list" where
  "parse_woe_bin ext b =
     (case b of
        Str s \<Rightarrow>
          mapE (\<lambda>i. case py_float ext (strip ''[] '' i) of
                      None \<Rightarrow> Inl (ValueErr i)
                    | Some x \<Rightarrow> Inr x)
            (split_on CHR '','' s)
      | _ \<Rightarrow> Inl AttributeErr)"

fun Woe_fit_num ::
  "external \<Rightarrow> woe_component \<Rightarrow> (string \<rightharpoonup> real list) \<Rightarrow> string list \<Rightarrow> dataset \<Rightarrow> woe_table
     \<Rightarrow> error + woe_table" where
  "Woe_fit_num ext self bins [] df_master df_ref_num = Inr df_ref_num"
| "Woe_fit_num ext self bins (var # vars) df_master df_ref_num =
     ebind (case bins var of
              Some b \<Rightarrow> numwoe_aptbinning ext df_master var b (woe_target self)
            | None \<Rightarrow> numwoe_autobinning ext df_master var (woe_target self))
       (\<lambda>df_ref_num_tmp.
          Woe_fit_num ext self bins vars df_master (df_ref_num @ df_ref_num_tmp))"

fun Woe_fit_cag ::
  "external \<Rightarrow> woe_component \<Rightarrow> string list \<Rightarrow> dataset \<Rightarrow> woe_table
     \<Rightarrow> error + woe_table \<times> dataset" where
  "Woe_fit_cag ext self [] df_master df_ref_cag = Inr (df_ref_cag, df_master)"
| "Woe_fit_cag ext self (var # vars) df_master df_ref_cag =
     ebind (df_col df_master var) (\<lambda>c.
       let df1 = df_assign df_master var (map (str_convert ext) (cells c)) in
       ebind (catwoe_autobinning ext df1 var (woe_target self)) (\<lambda>df_ref_cag_tmp.
         Woe_fit_cag ext self vars df1 (df_ref_cag @ df_ref_cag_tmp)))"

text \<open>
  Woe.fit; the output folder, the plots and the checkpoint files it writes are outside the
  model. The categorical loop rewrites the dataset's column in place, so the dataset is
  returned with the fitted component.
\<close>

definition Woe_fit :: "external \<Rightarrow> woe_component \<Rightarrow> dataset \<Rightarrow> error + woe_component \<times> dataset" where
  "Woe_fit ext self df_master =
     (let df_woe_config =
            filter (\<lambda>r. Var_Name r \<in> set (woe_apply_list self)) (rows (woe_config self));
          num_vars_list = map Var_Name (filter (\<lambda>r. Var_Type r = ''numerical'') df_woe_config);
          cag_vars_list = map Var_Name (filter (\<lambda>r. Var_Type r = ''categorical'') df_woe_config)
      in
      ebind (mapE (\<lambda>r. ebind (parse_woe_bin ext (WOE_Bin r)) (\<lambda>b. Inr (Var_Name r, b)))
               (filter (\<lambda>r. Var_Type r = ''numerical'' \<and> \<not> isnull (WOE_Bin r)) df_woe_config))
        (\<lambda>num_dict_woe_bin.
      ebind (Woe_fit_num ext self (map_of (rev num_dict_woe_bin)) num_vars_list df_master [])
        (\<lambda>df_ref_num.
      ebind (Woe_fit_cag ext self cag_vars_list df_master [])
        (\<lambda>(df_ref_cag, df1).
           Inr (self\<lparr>woe_reference := Some (df_ref_num @ df_ref_cag)\<rparr>, df1)))))"

text \<open>
  Modelled from the spec: \<open>woe_tools.numwoe_apply\<close> and \<open>woe_tools.catwoe_apply\<close>, which
  Woe.apply calls; the module \<open>woe_tools\<close> is missing. The spec gives them as
  \<open>apply_bins(dataset, reference_rows, variable)\<close>, which substitutes each value of the
  variable with its bin's evidence weight and writes the result into a new column,
  \<open>"nwoe_"+name\<close> for a numerical and \<open>"cwoe_"+name\<close> for a categorical variable. How a
  value is matched to its bin is the parameter \<open>bin_value\<close>; reading the variable's
  column fails with KeyError when the dataset has no such column.
\<close>

definition apply_bins ::
  "(woe_table \<Rightarrow> cell \<Rightarrow> cell) \<Rightarrow> string \<Rightarrow> dataset \<Rightarrow> woe_table \<Rightarrow> string \<Rightarrow> error + dataset" where
  "apply_bins bin_value prefix df ref_table var_name =
     ebind (df_col df var_name) (\<lambda>c.
       Inr (df_assign df (prefix @ var_name) (map (bin_value ref_table) (cells c))))"

definition numwoe_apply :: "external \<Rightarrow> dataset \<Rightarrow> woe_table \<Rightarrow> string \<Rightarrow> error + dataset" where
  "numwoe_apply ext = apply_bins (num_bin_value ext) ''nwoe_''"

definition catwoe_apply :: "external \<Rightarrow> dataset \<Rightarrow> woe_table \<Rightarrow> string \<Rightarrow> error + dataset" where
  "catwoe_apply ext = apply_bins (cat_bin_value ext) ''cwoe_''"

text \<open>\<open>Series.unique()\<close>: the distinct values in order of first appearance.\<close>

definition unique :: "'a list \<Rightarrow> 'a list" where
  "unique xs = rev (remdups (rev xs))"

fun Woe_apply_loop ::
  "(dataset \<Rightarrow> woe_table \<Rightarrow> string \<Rightarrow> error + dataset) \<Rightarrow> woe_table \<Rightarrow> string list \<Rightarrow> dataset
     \<Rightarrow> error + dataset" where
  "Woe_apply_loop woe_apply df_ref [] df_return = Inr df_return"
| "Woe_apply_loop woe_apply df_ref (var # vars) df_return =
     ebind (woe_apply df_return (filter (\<lambda>r. woe_Var_Name r = var) df_ref) var)
       (Woe_apply_loop woe_apply df_ref vars)"

definition Woe_apply :: "external \<Rightarrow> woe_component \<Rightarrow> dataset \<Rightarrow> error + dataset" where
  "Woe_apply ext self df_master =
     (case woe_reference self of
        None \<Rightarrow> Inl ReferenceMissing
      | Some ref \<Rightarrow>
          (let df_woe_ref = filter (\<lambda>r. woe_Var_Name r \<in> set (woe_apply_list self)) ref;
               df_ref_num = filter (\<lambda>r. woe_Var_Type r = ''numerical'') df_woe_ref;
               df_ref_cag = filter (\<lambda>r. woe_Var_Type r = ''categorical'') df_woe_ref
           in
           ebind (Woe_apply_loop (numwoe_apply ext) df_ref_num
                    (unique (map woe_Var_Name df_ref_num)) df_master) (\<lambda>df1.
           ebind (Woe_apply_loop (catwoe_apply ext) df_ref_cag
                    (unique (map woe_Var_Name df_ref_cag)) df1) (\<lambda>df2.
             Inr (df_drop df2 (woe_apply_list self))))))"

section \<open>Normalize and Scale\<close>

definition Normalize_init :: "table \<Rightarrow> string list option \<Rightarrow> component" where
  "Normalize_init df_config al = new_component df_config (\<lambda>r. Ind_Norm r = 1) al"

definition Scale_init :: "table \<Rightarrow> string list option \<Rightarrow> component" where
  "Scale_init df_config al = new_component df_config (\<lambda>r. Ind_Scale r = 1) al"

text \<open>
  The column a variable lives in at this pipeline position. The read of \<open>Ind_WOE\<close> is
  inside try/except and gives 0 on any exception. With \<open>Ind_WOE = 1\<close> and a type that
  is neither numerical nor categorical the source assigns nothing: \<open>real_var\<close> keeps the
  value of the previous iteration and is unbound in the first, which \<open>None\<close> stands for.
\<close>

definition resolve_real_var :: "table \<Rightarrow> string \<Rightarrow> string option \<Rightarrow> error + string option" where
  "resolve_real_var cfg var prev =
     ebind (iloc0 (rows_of cfg var)) (\<lambda>r.
       let var_type = Var_Type r;
           ind_woe = (case ref_value cfg ''Ind_WOE'' Ind_WOE var of Inl e \<Rightarrow> 0 | Inr v \<Rightarrow> v)
       in Inr (if ind_woe = 1 then
                 (if var_type = ''numerical'' then Some (''nwoe_'' @ var)
                  else if var_type = ''categorical'' then Some (''cwoe_'' @ var)
                  else prev)
               else Some var))"

definition real_col :: "dataset \<Rightarrow> string option \<Rightarrow> error + string \<times> column" where
  "real_col df rv =
     (case rv of
        None \<Rightarrow> Inl (UnboundLocal ''real_var'')
      | Some real_var \<Rightarrow> ebind (df_col df real_var) (\<lambda>c. Inr (real_var, c)))"

text \<open>
  \<open>pd.merge(config, df_ref, how='left', on='Var_Name')\<close>: every config row, once per
  matching row of \<open>df_ref\<close> and once with nulls when there is none. A column name on both
  sides gets the suffixes \<open>_x\<close> and \<open>_y\<close>, so that the plain name is no column of the
  result. \<open>d1\<close> and \<open>d2\<close> are the dtypes of the two merged columns.
\<close>

definition merge_left ::
  "table \<Rightarrow> string \<Rightarrow> string \<Rightarrow> dtype \<Rightarrow> dtype
     \<Rightarrow> (real option \<Rightarrow> real option \<Rightarrow> cfg_row \<Rightarrow> cfg_row)
     \<Rightarrow> (string \<times> real option \<times> real option) list \<Rightarrow> table" where
  "merge_left cfg c1 c2 d1 d2 put df_ref =
     \<lparr>header = map (\<lambda>c. if c \<in> {c1, c2} then c @ ''_x'' else c) (header cfg)
               @ map (\<lambda>c. if c \<in> set (header cfg) then c @ ''_y'' else c) [c1, c2],
      rows = concat (map (\<lambda>r.
               case filter (\<lambda>(n, a, b). n = Var_Name r) df_ref of
                 [] \<Rightarrow> [put None None r]
               | ms \<Rightarrow> map (\<lambda>(n, a, b). put a b r) ms) (rows cfg)),
      stat_dtype = (stat_dtype cfg)(c1 := d1, c2 := d2)\<rparr>"

text \<open>
  The loop of Normalize.fit and Scale.fit: the two statistics of each variable's column,
  with the dtype of the column they were taken from.
\<close>

fun stat_loop ::
  "(real list \<Rightarrow> real option) \<Rightarrow> (real list \<Rightarrow> real option) \<Rightarrow> table \<Rightarrow> string list
     \<Rightarrow> string option \<Rightarrow> dataset
     \<Rightarrow> error + (string \<times> dtype \<times> real option \<times> real option) list" where
  "stat_loop f g cfg [] prev df_master = Inr []"
| "stat_loop f g cfg (var # vars) prev df_master =
     ebind (resolve_real_var cfg var prev) (\<lambda>rv.
       ebind (real_col df_master rv) (\<lambda>(real_var, c).
         ebind (col_stat f (cells c)) (\<lambda>a.
           ebind (col_stat g (cells c)) (\<lambda>b.
             ebind (stat_loop f g cfg vars rv df_master) (\<lambda>rest.
               Inr ((var, dtype c, a, b) # rest))))))"

text \<open>The mean and the standard deviation of pandas are float64 on every column.\<close>

definition Normalize_fit :: "external \<Rightarrow> component \<Rightarrow> dataset \<Rightarrow> error + component" where
  "Normalize_fit ext self df_master =
     ebind (stat_loop pd_mean (pd_std ext) (config self) (apply_list self) None df_master)
       (\<lambda>df_ref.
          Inr (self\<lparr>reference :=
                 merge_left (config self) ''Mean'' ''Std'' Float64 Float64
                   (\<lambda>m sd r. r\<lparr>Mean_Value := m, Std_Value := sd\<rparr>)
                   (map (\<lambda>(n, d, a, b). (n, a, b)) df_ref)\<rparr>))"

text \<open>
  The minimum and the maximum of an integer column are numpy integers. The lists \<open>min\<close>
  and \<open>max\<close> become int64 columns of \<open>df_ref\<close> when every entry is an integer, and the
  left merge keeps them int64 when every config row has a match; otherwise the columns
  are float64 and the integers in them are converted. A column that is not of an integer
  dtype is taken to give float64 statistics.
\<close>

definition int_dtypes :: "dtype list" where
  "int_dtypes = [Int8, Int16, Int32, Int64]"

definition minmax_dtype ::
  "table \<Rightarrow> (string \<times> dtype \<times> real option \<times> real option) list \<Rightarrow> dtype" where
  "minmax_dtype cfg df_ref =
     (if list_all (\<lambda>(n, d, a, b). d \<in> set int_dtypes \<and> a \<noteq> None \<and> b \<noteq> None) df_ref
         \<and> list_all (\<lambda>r. Var_Name r \<in> set (map fst df_ref)) (rows cfg)
      then Int64 else Float64)"

definition stat_as :: "dtype \<Rightarrow> dtype \<Rightarrow> real option \<Rightarrow> real option" where
  "stat_as sd d a =
     (if sd = Float64 \<and> d \<in> set int_dtypes then map_option (\<lambda>x. float64_of_int \<lfloor>x\<rfloor>) a
      else a)"

definition Scale_fit :: "component \<Rightarrow> dataset \<Rightarrow> error + component" where
  "Scale_fit self df_master =
     ebind (stat_loop pd_min pd_max (config self) (apply_list self) None df_master)
       (\<lambda>df_ref.
          let sd = minmax_dtype (config self) df_ref in
          Inr (self\<lparr>reference :=
                 merge_left (config self) ''Min'' ''Max'' sd sd
                   (\<lambda>mn mx r. r\<lparr>Min_Value := mn, Max_Value := mx\<rparr>)
                   (map (\<lambda>(n, d, a, b). (n, stat_as sd d a, stat_as sd d b)) df_ref)\<rparr>))"

text \<open>
  \<open>(series - var_mean) / var_std\<close>. Subtracting from a string is a TypeError. Dividing by
  zero would give numpy's inf or NaN: the model marks that branch with the error
  \<open>ZeroDivision\<close>, and the callers are shown never to reach it. The result is computed
  for a float64 or integer column and float64 statistics when every difference and
  every quotient is finite; anything else is left to \<open>np_normalize\<close>.
\<close>

fun sub_cell :: "real \<Rightarrow> cell \<Rightarrow> cell" where
  "sub_cell a (Num x) = Num (x - a)"
| "sub_cell a c = c"

fun div_cell :: "real \<Rightarrow> cell \<Rightarrow> cell" where
  "div_cell d (Num x) = Num (x / d)"
| "div_cell d c = c"

fun normalize_finite :: "real \<Rightarrow> real \<Rightarrow> cell \<Rightarrow> bool" where
  "normalize_finite m sd (Num x) = (fits_float64 (x - m) \<and> fits_float64 ((x - m) / sd))"
| "normalize_finite m sd c = True"

definition normalize_float64 ::
  "dtype \<Rightarrow> dtype \<Rightarrow> real \<Rightarrow> real \<Rightarrow> column \<Rightarrow> cell list option" where
  "normalize_float64 dmean dstd m sd c =
     (if dmean = Float64 \<and> dstd = Float64 then
        (case those (map (to_float64 (dtype c)) (cells c)) of
           Some xs \<Rightarrow>
             if list_all (normalize_finite m sd) xs
             then Some (map (div_cell sd) (map (sub_cell m) xs))
             else None
         | None \<Rightarrow> None)
      else None)"

definition normalize_series ::
  "external \<Rightarrow> dtype \<Rightarrow> dtype \<Rightarrow> real \<Rightarrow> real \<Rightarrow> column \<Rightarrow> error + column" where
  "normalize_series ext dmean dstd m sd c =
     (if \<not> num_only (cells c) then Inl TypeErr
      else if sd = 0 then Inl ZeroDivision
      else case normalize_float64 dmean dstd m sd c of
             Some q \<Rightarrow> Inr \<lparr>dtype = Float64, cells = q\<rparr>
           | None \<Rightarrow>
               (case np_normalize ext (dtype c) dmean dstd m sd (cells c) of
                  None \<Rightarrow> Inl NumpyError
                | Some c' \<Rightarrow> Inr c'))"

fun Normalize_apply_loop ::
  "external \<Rightarrow> component \<Rightarrow> string list \<Rightarrow> string option \<Rightarrow> dataset \<Rightarrow> error + dataset" where
  "Normalize_apply_loop ext self [] prev df_master = Inr df_master"
| "Normalize_apply_loop ext self (var # vars) prev df_master =
     ebind (resolve_real_var (config self) var prev) (\<lambda>rv.
       ebind (ref_value (reference self) ''Mean'' Mean_Value var) (\<lambda>var_mean.
         ebind (ref_value (reference self) ''Std'' Std_Value var) (\<lambda>var_std.
           case (var_mean, var_std) of
             (Some m, Some sd) \<Rightarrow>
               if sd = 0 then Inl (StdZero var)
               else
                 ebind (real_col df_master rv) (\<lambda>(real_var, c).
                   ebind (normalize_series ext (stat_dtype (reference self) ''Mean'')
                            (stat_dtype (reference self) ''Std'') m sd c) (\<lambda>c'.
                     Normalize_apply_loop ext self vars rv (df_set df_master real_var c')))
           | _ \<Rightarrow> Inl (NotFoundValue ''mean or std'' var))))"

definition Normalize_apply :: "external \<Rightarrow> component \<Rightarrow> dataset \<Rightarrow> error + dataset" where
  "Normalize_apply ext self df_master =
     Normalize_apply_loop ext self (apply_list self) None df_master"

text \<open>
  \<open>(series - var_min) / (var_max - var_min)\<close> as float64 values, where the model computes
  it. With float64 statistics the column is converted to float64 and both differences
  are float64 differences, which may be infinite. With int64 statistics
  \<open>var_max - var_min\<close> is an int64 difference and wraps around; so does
  \<open>series - var_min\<close> on an int64 column, while a float64 column takes \<open>var_min\<close>
  converted to float64. The division converts an int64 operand to float64.
\<close>

fun int64_cell :: "cell \<Rightarrow> bool" where
  "int64_cell (Num x) = is_int64 x"
| "int64_cell c = False"

fun wrap_sub_cell :: "real \<Rightarrow> cell \<Rightarrow> xfloat" where
  "wrap_sub_cell a (Num x) = FNum (float64_of_int (wrap64 (\<lfloor>x\<rfloor> - \<lfloor>a\<rfloor>)))"
| "wrap_sub_cell a c = FNaN"

definition scale_float64 ::
  "dtype \<Rightarrow> dtype \<Rightarrow> real \<Rightarrow> real \<Rightarrow> column \<Rightarrow> xfloat list option" where
  "scale_float64 dmin dmax mn mx c =
     (if dmin = Float64 \<and> dmax = Float64 then
        (case (fsub64 mx mn, those (map (to_float64 (dtype c)) (cells c))) of
           (Some d, Some xs) \<Rightarrow>
             map_option (map (\<lambda>n. fdiv64 n d)) (those (map (sub64_cell mn) xs))
         | _ \<Rightarrow> None)
      else if dmin = Int64 \<and> dmax = Int64 \<and> is_int64 mn \<and> is_int64 mx then
        (let d = FNum (float64_of_int (wrap64 (\<lfloor>mx\<rfloor> - \<lfloor>mn\<rfloor>))) in
         if dtype c = Int64 \<and> list_all int64_cell (cells c)
         then Some (map (\<lambda>x. fdiv64 (wrap_sub_cell mn x) d) (cells c))
         else if dtype c = Float64
         then map_option (map (\<lambda>n. fdiv64 n d))
                (those (map (sub64_cell (float64_of_int \<lfloor>mn\<rfloor>)) (cells c)))
         else None)
      else None)"

definition scale_series ::
  "external \<Rightarrow> dtype \<Rightarrow> dtype \<Rightarrow> real \<Rightarrow> real \<Rightarrow> column \<Rightarrow> error + dtype \<times> xfloat list" where
  "scale_series ext dmin dmax mn mx c =
     (if \<not> num_only (cells c) then Inl TypeErr
      else if mx - mn = 0 then Inl ZeroDivision
      else case scale_float64 dmin dmax mn mx c of
             Some q \<Rightarrow> Inr (Float64, q)
           | None \<Rightarrow>
               (case np_scale ext (dtype c) dmin dmax mn mx (cells c) of
                  None \<Rightarrow> Inl NumpyError
                | Some r \<Rightarrow> Inr r))"

text \<open>
  \<open>df.loc[df[real_var] > 1.0, real_var] = 1.0\<close> followed by
  \<open>df.loc[df[real_var] < 0.0, real_var] = 0.0\<close> on one value; both comparisons are
  False on NaN, and an infinity is above 1 or below 0.
\<close>

fun clamp_unit :: "xfloat \<Rightarrow> cell" where
  "clamp_unit FNaN = NaN"
| "clamp_unit (FNum y) = (if y > 1 then Num 1 else if y < 0 then Num 0 else Num y)"
| "clamp_unit (FInf s) = (if s then Num 1 else Num 0)"

fun Scale_apply_loop ::
  "external \<Rightarrow> component \<Rightarrow> string list \<Rightarrow> string option \<Rightarrow> dataset \<Rightarrow> error + dataset" where
  "Scale_apply_loop ext self [] prev df_master = Inr df_master"
| "Scale_apply_loop ext self (var # vars) prev df_master =
     ebind (resolve_real_var (config self) var prev) (\<lambda>rv.
       ebind (ref_value (reference self) ''Min'' Min_Value var) (\<lambda>var_min.
         ebind (ref_value (reference self) ''Max'' Max_Value var) (\<lambda>var_max.
           case (var_min, var_max) of
             (Some mn, Some mx) \<Rightarrow>
               if mx - mn = 0 then Inl (MaxEqualMin var)
               else
                 ebind (real_col df_master rv) (\<lambda>(real_var, c).
                   ebind (scale_series ext (stat_dtype (reference self) ''Min'')
                            (stat_dtype (reference self) ''Max'') mn mx c) (\<lambda>(d, q).
                     Scale_apply_loop ext self vars rv
                       (df_set df_master real_var \<lparr>dtype = d, cells = map clamp_unit q\<rparr>)))
           | _ \<Rightarrow> Inl (NotFoundValue ''max or min'' var))))"

definition Scale_apply :: "external \<Rightarrow> component \<Rightarrow> dataset \<Rightarrow> error + dataset" where
  "Scale_apply ext self df_master = Scale_apply_loop ext self (apply_list self) None df_master"

section \<open>Tactic\<close>

datatype operation = Cap | Floor | MissingImpute | Woe | Normalize | Scale

record tactic_state =
  tactic_config :: table
  tactic_reference :: table
  process_list :: "operation list"
  target :: "string option"
  tactic_woe_reference :: "woe_table option"

definition Tactic_init ::
  "table \<Rightarrow> operation list option \<Rightarrow> string option \<Rightarrow> woe_table option \<Rightarrow> tactic_state" where
  "Tactic_init df_config pl tgt woe_ref =
     \<lparr>tactic_config = df_config, tactic_reference = df_config,
      process_list = (case pl of None \<Rightarrow> [] | Some l \<Rightarrow> l),
      target = tgt, tactic_woe_reference = woe_ref\<rparr>"

definition allow_header :: "string list" where
  "allow_header =
     [''Var_Name'', ''Var_Type'', ''Preicesion'', ''Ind_Model'', ''Ind_Cap'', ''Cap_Value'',
      ''Ind_Floor'', ''Floor_Value'', ''Missing_Impute'', ''Ind_WOE'', ''WOE_Bin'', ''Ind_Norm'',
      ''Ind_Scale'']"

text \<open>
  \<open>dtype in [int, float, np.int64, ...]\<close> compares the dtype with the dtype each list
  entry converts to: \<open>int\<close> is int64, \<open>float\<close> is float64, \<open>str\<close> is numpy's string
  dtype and \<open>np.object\<close> is object.
\<close>

definition num_type_list :: "dtype list" where
  "num_type_list = [Int64, Float64, Int64, Int32, Int16, Int8, Float64, Float32]"

definition cag_type_list :: "dtype list" where
  "cag_type_list = [NpStr, Object]"

text \<open>
  The type loop. \<open>var_type_master[var]\<close> is evaluated in the second or the third
  condition whenever the variable is numerical or categorical, and raises KeyError when
  the dataset has no such column.
\<close>

fun check_var_type ::
  "string list \<Rightarrow> string list \<Rightarrow> dataset \<Rightarrow> string list \<Rightarrow> nat \<Rightarrow> error + nat" where
  "check_var_type num_var_list cag_var_list df_master [] cnt_error = Inr cnt_error"
| "check_var_type num_var_list cag_var_list df_master (var # vars) cnt_error =
     (if var \<notin> set num_var_list \<and> var \<notin> set cag_var_list then
        check_var_type num_var_list cag_var_list df_master vars (cnt_error + 1)
      else
        ebind (df_col df_master var) (\<lambda>c.
          if var \<in> set num_var_list \<and> dtype c \<notin> set num_type_list then
            check_var_type num_var_list cag_var_list df_master vars (cnt_error + 1)
          else if var \<in> set cag_var_list \<and> dtype c \<notin> set cag_type_list then
            check_var_type num_var_list cag_var_list df_master vars (cnt_error + 1)
          else check_var_type num_var_list cag_var_list df_master vars cnt_error))"

fun check_cap_floor :: "table \<Rightarrow> string list \<Rightarrow> nat \<Rightarrow> error + nat" where
  "check_cap_floor cfg [] cnt_error = Inr cnt_error"
| "check_cap_floor cfg (var # vars) cnt_error =
     ebind (iloc0 (rows_of cfg var)) (\<lambda>r.
       if Ind_Cap r = 1 then check_cap_floor cfg vars (cnt_error + 1)
       else if Ind_Floor r = 1 then check_cap_floor cfg vars (cnt_error + 1)
       else check_cap_floor cfg vars cnt_error)"

text \<open>
  The imputation loop reads \<open>self.config['Missing_Impute'][self.config['Var_Name'] == var]\<close>
  without \<open>.iloc[0]\<close>: \<open>impute_value\<close> is the selected Series, not its first cell, and
  \<open>type(impute_value) == str\<close> is tested on that Series.
\<close>

datatype pyobj = Series "cell list" | Scalar cell

fun type_is_str :: "pyobj \<Rightarrow> bool" where
  "type_is_str (Scalar (Str s)) = True"
| "type_is_str v = False"

fun check_impute :: "table \<Rightarrow> string list \<Rightarrow> nat \<Rightarrow> nat" where
  "check_impute cfg [] cnt_error = cnt_error"
| "check_impute cfg (var # vars) cnt_error =
     (let impute_value = Series (map Missing_Impute (rows_of cfg var)) in
      if type_is_str impute_value
         \<and> impute_value \<notin> set [Scalar (Str ''mean''), Scalar (Str ''median'')]
      then check_impute cfg vars (cnt_error + 1)
      else check_impute cfg vars cnt_error)"

text \<open>
  check_config_file: the error count; its diagnostics are console output. The message of
  the unknown-type branch is written \<open>print("...").format(var)\<close>, a print statement of
  Python 2, which the model follows: the branch counts one error and goes on.
\<close>

definition check_config_file :: "tactic_state \<Rightarrow> dataset \<Rightarrow> error + nat" where
  "check_config_file self df_master =
     (let cfg = tactic_config self;
          wrong_header = filter (\<lambda>col. col \<notin> set allow_header) (header cfg);
          cnt0 = (if wrong_header \<noteq> [] then 1 else 0);
          var_list_config = map Var_Name (rows cfg);
          var_list_master = df_columns df_master;
          wrong_var_name = filter (\<lambda>var. var \<notin> set var_list_master) var_list_config;
          cnt1 = (if wrong_var_name \<noteq> [] then cnt0 + 1 else cnt0);
          num_var_list = map Var_Name (filter (\<lambda>r. Var_Type r = ''numerical'') (rows cfg));
          cag_var_list = map Var_Name (filter (\<lambda>r. Var_Type r = ''categorical'') (rows cfg))
      in
      ebind (check_var_type num_var_list cag_var_list df_master var_list_config cnt1) (\<lambda>cnt2.
        ebind (check_cap_floor cfg cag_var_list cnt2) (\<lambda>cnt3.
          Inr (check_impute cfg num_var_list cnt3))))"

text \<open>
  \<open>__complie\<close>: the instance of a component class on the current reference table. Woe
  has its own constructor and instance; \<open>Transform Woe\<close> is never built.
\<close>

datatype component_instance = Transform operation component | WoeInstance woe_component

definition compile :: "tactic_state \<Rightarrow> operation \<Rightarrow> component_instance" where
  "compile self operation =
     (case operation of
        Woe \<Rightarrow> WoeInstance (Woe_init (tactic_reference self) (target self)
                              (tactic_woe_reference self) None)
      | Cap \<Rightarrow> Transform Cap (Cap_init (tactic_reference self) None)
      | Floor \<Rightarrow> Transform Floor (Floor_init (tactic_reference self) None)
      | MissingImpute \<Rightarrow> Transform MissingImpute (MissingImpute_init (tactic_reference self) None)
      | Normalize \<Rightarrow> Transform Normalize (Normalize_init (tactic_reference self) None)
      | Scale \<Rightarrow> Transform Scale (Scale_init (tactic_reference self) None))"

fun instance_fit :: "external \<Rightarrow> component_instance \<Rightarrow> dataset \<Rightarrow> error + component_instance \<times> dataset" where
  "instance_fit ext (WoeInstance w) df =
     ebind (Woe_fit ext w df) (\<lambda>(w', df'). Inr (WoeInstance w', df'))"
| "instance_fit ext (Transform Cap c) df =
     ebind (Cap_fit ext c df) (\<lambda>c'. Inr (Transform Cap c', df))"
| "instance_fit ext (Transform Floor c) df =
     ebind (Floor_fit ext c df) (\<lambda>c'. Inr (Transform Floor c', df))"
| "instance_fit ext (Transform MissingImpute c) df =
     ebind (MissingImpute_fit ext c df) (\<lambda>c'. Inr (Transform MissingImpute c', df))"
| "instance_fit ext (Transform Normalize c) df =
     ebind (Normalize_fit ext c df) (\<lambda>c'. Inr (Transform Normalize c', df))"
| "instance_fit ext (Transform Scale c) df =
     ebind (Scale_fit c df) (\<lambda>c'. Inr (Transform Scale c', df))"
| "instance_fit ext (Transform Woe c) df = Inl AttributeErr"

fun instance_apply :: "external \<Rightarrow> component_instance \<Rightarrow> dataset \<Rightarrow> error + dataset" where
  "instance_apply ext (WoeInstance w) df = Woe_apply ext w df"
| "instance_apply ext (Transform Cap c) df = Cap_apply ext c df"
| "instance_apply ext (Transform Floor c) df = Floor_apply c df"
| "instance_apply ext (Transform MissingImpute c) df = MissingImpute_apply ext c df"
| "instance_apply ext (Transform Normalize c) df = Normalize_apply ext c df"
| "instance_apply ext (Transform Scale c) df = Scale_apply ext c df"
| "instance_apply ext (Transform Woe c) df = Inl AttributeErr"

text \<open>
  The loop of Tactic.fit on the working copy \<open>df_tmp\<close>: fit, store the returned table
  (in the WOE slot for Woe), then apply. A raise leaves the orchestrator as the
  iterations before it left it.
\<close>

fun fit_loop :: "external \<Rightarrow> operation list \<Rightarrow> tactic_state \<Rightarrow> dataset \<Rightarrow> (error + table) \<times> tactic_state" where
  "fit_loop ext [] self df_tmp = (Inr (tactic_reference self), self)"
| "fit_loop ext (operation # ops) self df_tmp =
     (case instance_fit ext (compile self operation) df_tmp of
        Inl e \<Rightarrow> (Inl e, self)
      | Inr (inst, df1) \<Rightarrow>
          (let self' = (case inst of
                          WoeInstance w \<Rightarrow> self\<lparr>tactic_woe_reference := woe_reference w\<rparr>
                        | Transform op c \<Rightarrow> self\<lparr>tactic_reference := reference c\<rparr>)
           in case instance_apply ext inst df1 of
                Inl e \<Rightarrow> (Inl e, self')
              | Inr df2 \<Rightarrow> fit_loop ext ops self' df2))"

text \<open>
  Tactic.fit returns the reference table or raises; the model also returns the
  orchestrator and the caller's dataset as the call leaves them. The source works on
  \<open>df_master.copy()\<close> and only reads \<open>df_master\<close> itself, in check_config_file.
\<close>

definition Tactic_fit ::
  "external \<Rightarrow> tactic_state \<Rightarrow> dataset \<Rightarrow> (error + table) \<times> tactic_state \<times> dataset" where
  "Tactic_fit ext self df_master =
     (let df_tmp = df_master in
      case check_config_file self df_master of
        Inl e \<Rightarrow> (Inl e, self, df_master)
      | Inr error_cnt \<Rightarrow>
          if error_cnt > 0 then (Inl ConfigCheckFailed, self, df_master)
          else if Woe \<in> set (process_list self) \<and> target self = None
          then (Inl TargetNeeded, self, df_master)
          else (case fit_loop ext (process_list self) self df_tmp of
                  (res, self') \<Rightarrow> (res, self', df_master)))"

fun apply_loop :: "external \<Rightarrow> operation list \<Rightarrow> tactic_state \<Rightarrow> dataset \<Rightarrow> error + dataset" where
  "apply_loop ext [] self df_return = Inr df_return"
| "apply_loop ext (operation # ops) self df_return =
     ebind (instance_apply ext (compile self operation) df_return) (apply_loop ext ops self)"

definition Tactic_apply :: "external \<Rightarrow> tactic_state \<Rightarrow> dataset \<Rightarrow> error + dataset" where
  "Tactic_apply ext self df_master = apply_loop ext (process_list self) self df_master"

section \<open>Correlation filter\<close>

text \<open>
  The DataFrame handed to gen_corr, by rows. \<open>df.corr()\<close> is pandas' pairwise
  correlation, a parameter of the model.
\<close>

record frame =
  frame_columns :: "string list"
  frame_rows :: "cell list list"

text \<open>
  A correlation matrix: the labels, which index rows and columns alike, and the cell of
  each pair of labels (\<open>None\<close> is NaN).
\<close>

record corr_matrix =
  labels :: "string list"
  val :: "string \<Rightarrow> string \<Rightarrow> real option"

fun transform :: "real option \<Rightarrow> real option" where
  "transform None = None"
| "transform (Some x) = Some (if x = 1 then 0 else if x < 0 then - x else x)"

text \<open>\<open>(df != -1).T.any()\<close>: the rows with a cell that is not -1.\<close>

definition not_all_minus_one :: "cell list \<Rightarrow> bool" where
  "not_all_minus_one row = list_ex (\<lambda>c. c \<noteq> Num (- 1)) row"

definition gen_corr :: "(frame \<Rightarrow> corr_matrix) \<Rightarrow> frame \<Rightarrow> corr_matrix" where
  "gen_corr pd_corr df =
     (let df1 = df\<lparr>frame_rows := filter not_all_minus_one (frame_rows df)\<rparr>;
          corr = pd_corr df1
      in corr\<lparr>val := (\<lambda>r c. transform (val corr r c))\<rparr>)"

text \<open>\<open>corr.loc[idx, col] > thresh\<close>; False on NaN.\<close>

fun exceeds :: "real option \<Rightarrow> real \<Rightarrow> bool" where
  "exceeds None thresh = False"
| "exceeds (Some x) thresh = (x > thresh)"

text \<open>\<open>corr.loc[idx, :] = -1\<close> followed by \<open>corr.loc[:, idx] = -1\<close>.\<close>

definition mark :: "string \<Rightarrow> corr_matrix \<Rightarrow> corr_matrix" where
  "mark idx corr =
     corr\<lparr>val := (\<lambda>r c. if r = idx \<or> c = idx then Some (- 1) else val corr r c)\<rparr>"

definition scan_cell :: "real \<Rightarrow> string \<Rightarrow> string \<Rightarrow> corr_matrix \<Rightarrow> corr_matrix" where
  "scan_cell thresh col idx corr =
     (if exceeds (val corr idx col) thresh then mark idx corr else corr)"

definition scan_column :: "real \<Rightarrow> string \<Rightarrow> corr_matrix \<Rightarrow> corr_matrix" where
  "scan_column thresh col corr = fold (scan_cell thresh col) (labels corr) corr"

definition scan :: "real \<Rightarrow> corr_matrix \<Rightarrow> corr_matrix" where
  "scan thresh corr = fold (scan_column thresh) (labels corr) corr"

text \<open>\<open>(corr != -1).any()\<close>: per column, whether some cell is not -1.\<close>

definition picked :: "corr_matrix \<Rightarrow> string \<Rightarrow> bool" where
  "picked corr c = list_ex (\<lambda>r. val corr r c \<noteq> Some (- 1)) (labels corr)"

definition filt_corr :: "corr_matrix \<Rightarrow> real \<Rightarrow> corr_matrix" where
  "filt_corr corr thresh =
     (let corr1 = scan thresh corr
      in corr1\<lparr>labels := filter (picked corr1) (labels corr1)\<rparr>)"

section \<open>Notions used in the statements\<close>

text \<open>The fitted cap of a variable: the \<open>Cap_Value\<close> of its first row in the table.\<close>

definition cap_of :: "table \<Rightarrow> string \<Rightarrow> real option" where
  "cap_of ref var = (case rows_of ref var of [] \<Rightarrow> None | r # _ \<Rightarrow> Cap_Value r)"

text \<open>
  A reference table with the single numerical variable \<open>x\<close>, cap 10 and floor -5, and a
  dataset whose column \<open>x\<close> has a value below the floor, one inside, a missing one and
  one above the cap.
\<close>

definition ex_row :: cfg_row where
  "ex_row =
     \<lparr>Var_Name = ''x'', Var_Type = ''numerical'', Ind_Model = 1, Ind_Cap = 1,
      Cap_Value = Some 10, Ind_Floor = 1, Floor_Value = Some (- 5), Missing_Impute = NaN,
      Ind_WOE = 0, WOE_Bin = NaN, Ind_Norm = 1, Ind_Scale = 1,
      Mean_Value = Some 0, Std_Value = Some 0, Min_Value = Some 0, Max_Value = Some 10\<rparr>"

definition ex_ref :: table where
  "ex_ref =
     \<lparr>header = allow_header @ [''Mean'', ''Std'', ''Min'', ''Max''], rows = [ex_row],
      stat_dtype = (\<lambda>col. Float64)\<rparr>"

definition ex_df :: dataset where
  "ex_df = [(''x'', \<lparr>dtype = Float64, cells = [Num (- 10), Num 3, NaN, Num 12]\<rparr>)]"

text \<open>
  A column that the conversion to float64 leaves as it is: a float64 column, or a column
  of an integer dtype whose values are all representable in float64.
\<close>

definition float64_exact :: "column \<Rightarrow> bool" where
  "float64_exact c = list_all (\<lambda>x. to_float64 (dtype c) x = Some x) (cells c)"

text \<open>
  An int64 column with the values \<open>2^53 + 1\<close> and \<open>2^53 + 3\<close>, and a reference table
  with the cap \<open>10^16\<close>, which is above both.
\<close>

definition wide_ref :: table where
  "wide_ref =
     \<lparr>header = allow_header, rows = [ex_row\<lparr>Cap_Value := Some 10000000000000000\<rparr>],
      stat_dtype = (\<lambda>col. Float64)\<rparr>"

definition wide_df :: dataset where
  "wide_df =
     [(''x'', \<lparr>dtype = Int64, cells = [Num 9007199254740993, Num 9007199254740995]\<rparr>)]"

text \<open>
  The scaling of one cell as the claim words it: \<open>(x - min) / (max - min)\<close>, a result
  above 1 becomes 1, a result below 0 becomes 0.
\<close>

fun scale_cell :: "real \<Rightarrow> real \<Rightarrow> cell \<Rightarrow> cell" where
  "scale_cell mn mx (Num x) =
     (let y = (x - mn) / (mx - mn) in if y > 1 then Num 1 else if y < 0 then Num 0 else Num y)"
| "scale_cell mn mx c = c"

fun in_unit_interval :: "cell \<Rightarrow> bool" where
  "in_unit_interval (Num y) = (0 \<le> y \<and> y \<le> 1)"
| "in_unit_interval c = False"

fun unit_or_missing :: "cell \<Rightarrow> bool" where
  "unit_or_missing NaN = True"
| "unit_or_missing c = in_unit_interval c"

text \<open>
  The scaling of a column is computed in float64, without a conversion that changes a
  value and without overflow: Min and Max are float64 statistics, the column is float64
  or has integer values representable in float64, and \<open>max - min\<close> and every
  \<open>x - min\<close> are within the float64 range.
\<close>

fun sub_fits :: "real \<Rightarrow> cell \<Rightarrow> bool" where
  "sub_fits mn (Num x) = fits_float64 (x - mn)"
| "sub_fits mn c = True"

definition float64_scaling :: "dtype \<Rightarrow> dtype \<Rightarrow> real \<Rightarrow> real \<Rightarrow> column \<Rightarrow> bool" where
  "float64_scaling dmin dmax mn mx c =
     (dmin = Float64 \<and> dmax = Float64 \<and> float64_exact c \<and> fits_float64 (mx - mn) \<and>
      list_all (sub_fits mn) (cells c))"

text \<open>
  A config with the variable \<open>x\<close> flagged for scaling and nothing fitted yet, and two
  datasets for it: an int64 column with the values \<open>-6 * 10^18\<close>, 0 and \<open>6 * 10^18\<close>,
  and a float64 column with the values \<open>-2^1023\<close>, 0 and \<open>2^1023\<close>. \<open>int_scale\<close> and
  \<open>huge_scale\<close> are the Scale components as Scale.fit leaves them on the one and on the
  other.
\<close>

definition scale_row :: cfg_row where
  "scale_row =
     ex_row\<lparr>Mean_Value := None, Std_Value := None, Min_Value := None, Max_Value := None\<rparr>"

definition scale_cfg :: table where
  "scale_cfg = \<lparr>header = allow_header, rows = [scale_row], stat_dtype = (\<lambda>col. Float64)\<rparr>"

definition int_df :: dataset where
  "int_df =
     [(''x'', \<lparr>dtype = Int64,
               cells = [Num (- 6000000000000000000), Num 0, Num 6000000000000000000]\<rparr>)]"

definition int_scale :: component where
  "int_scale =
     \<lparr>config = scale_cfg,
      reference =
        \<lparr>header = allow_header @ [''Min'', ''Max''],
         rows = [scale_row\<lparr>Min_Value := Some (- 6000000000000000000),
                           Max_Value := Some 6000000000000000000\<rparr>],
         stat_dtype = (\<lambda>col. Float64)(''Min'' := Int64, ''Max'' := Int64)\<rparr>,
      apply_list = [''x'']\<rparr>"

definition huge_df :: dataset where
  "huge_df = [(''x'', \<lparr>dtype = Float64, cells = [Num (- (2 ^ 1023)), Num 0, Num (2 ^ 1023)]\<rparr>)]"

definition huge_scale :: component where
  "huge_scale =
     \<lparr>config = scale_cfg,
      reference =
        \<lparr>header = allow_header @ [''Min'', ''Max''],
         rows = [scale_row\<lparr>Min_Value := Some (- (2 ^ 1023)), Max_Value := Some (2 ^ 1023)\<rparr>],
         stat_dtype = (\<lambda>col. Float64)(''Min'' := Float64, ''Max'' := Float64)\<rparr>,
      apply_list = [''x'']\<rparr>"

text \<open>
  A Scale component whose reference has the float64 statistics Min 0 and Max \<open>2^54\<close>,
  as fitted on float64 data, for the int64 column \<open>wide_df\<close>.
\<close>

definition wide_scale :: component where
  "wide_scale =
     Scale_init
       \<lparr>header = allow_header @ [''Min'', ''Max''],
        rows = [scale_row\<lparr>Min_Value := Some 0, Max_Value := Some 18014398509481984\<rparr>],
        stat_dtype = (\<lambda>col. Float64)\<rparr> None"

text \<open>
  The column of a variable when the config alone decides it: \<open>None\<close> when the variable
  has no row, or has \<open>Ind_WOE = 1\<close> and a type that is neither numerical nor
  categorical, where the source falls back on the previous iteration's column.
\<close>

definition real_name :: "table \<Rightarrow> string \<Rightarrow> string option" where
  "real_name cfg var = (case resolve_real_var cfg var None of Inl e \<Rightarrow> None | Inr rv \<Rightarrow> rv)"

text \<open>The entries of an apply list that may write the column \<open>rv\<close>.\<close>

definition writers :: "table \<Rightarrow> string \<Rightarrow> string list \<Rightarrow> string list" where
  "writers cfg rv vars =
     filter (\<lambda>v. real_name cfg v = None \<or> real_name cfg v = Some rv) vars"

text \<open>
  The end-to-end example: one numerical variable \<open>x\<close> in the model, no cap, floor, WOE,
  normalize or scale, \<open>Missing_Impute = 'mean'\<close>, and the dataset \<open>[1, 2, missing, 4]\<close>.
\<close>

definition impute_row :: cfg_row where
  "impute_row =
     \<lparr>Var_Name = ''x'', Var_Type = ''numerical'', Ind_Model = 1, Ind_Cap = 0,
      Cap_Value = None, Ind_Floor = 0, Floor_Value = None, Missing_Impute = Str ''mean'',
      Ind_WOE = 0, WOE_Bin = NaN, Ind_Norm = 0, Ind_Scale = 0,
      Mean_Value = None, Std_Value = None, Min_Value = None, Max_Value = None\<rparr>"

definition impute_cfg :: table where
  "impute_cfg =
     \<lparr>header = allow_header, rows = [impute_row], stat_dtype = (\<lambda>col. Float64)\<rparr>"

definition impute_ref :: table where
  "impute_ref =
     \<lparr>header = allow_header, rows = [impute_row\<lparr>Missing_Impute := Num (7 / 3)\<rparr>],
      stat_dtype = (\<lambda>col. Float64)\<rparr>"

definition impute_df :: dataset where
  "impute_df = [(''x'', \<lparr>dtype = Float64, cells = [Num 1, Num 2, NaN, Num 4]\<rparr>)]"

definition imputed_df :: dataset where
  "imputed_df = [(''x'', \<lparr>dtype = Float64, cells = [Num 1, Num 2, Num (7 / 3), Num 4]\<rparr>)]"

text \<open>The conditions of check_config_file, one row of the config at a time.\<close>

definition header_allowed :: "table \<Rightarrow> bool" where
  "header_allowed cfg = list_all (\<lambda>col. col \<in> set allow_header) (header cfg)"

definition names_exist :: "table \<Rightarrow> dataset \<Rightarrow> bool" where
  "names_exist cfg df = list_all (\<lambda>r. Var_Name r \<in> set (df_columns df)) (rows cfg)"

definition types_match :: "table \<Rightarrow> dataset \<Rightarrow> bool" where
  "types_match cfg df =
     list_all (\<lambda>r. case map_of df (Var_Name r) of
                      None \<Rightarrow> False
                    | Some c \<Rightarrow>
                        (Var_Type r = ''numerical'' \<and> dtype c \<in> set num_type_list)
                        \<or> (Var_Type r = ''categorical'' \<and> dtype c \<in> set cag_type_list))
       (rows cfg)"

definition no_categorical_cap_floor :: "table \<Rightarrow> bool" where
  "no_categorical_cap_floor cfg =
     list_all (\<lambda>r. Var_Type r = ''categorical'' \<longrightarrow> Ind_Cap r \<noteq> 1 \<and> Ind_Floor r \<noteq> 1) (rows cfg)"

text \<open>
  A well-formed imputation token of a numerical variable: \<open>mean\<close>, \<open>median\<close> or a value
  that is no string.
\<close>

definition impute_tokens_well_formed :: "table \<Rightarrow> bool" where
  "impute_tokens_well_formed cfg =
     list_all (\<lambda>r. Var_Type r = ''numerical'' \<longrightarrow>
                 \<not> (is_str (Missing_Impute r)
                    \<and> Missing_Impute r \<notin> set [Str ''mean'', Str ''median'']))
       (rows cfg)"

text \<open>
  What the type loop of check_config_file accepts for one variable, given the names of the
  numerical and of the categorical rows.
\<close>

definition var_type_ok :: "string list \<Rightarrow> string list \<Rightarrow> dataset \<Rightarrow> string \<Rightarrow> bool" where
  "var_type_ok nl cl df var =
     ((var \<in> set nl \<or> var \<in> set cl) \<and>
      (\<exists>c. map_of df var = Some c \<and>
           (var \<in> set nl \<longrightarrow> dtype c \<in> set num_type_list) \<and>
           (var \<in> set cl \<longrightarrow> dtype c \<in> set cag_type_list)))"

text \<open>Stand-ins for the library functions and the binning engine, for the concrete examples.\<close>

definition ex_ext :: external where
  "ex_ext =
     \<lparr>pd_quantile = (\<lambda>q xs. None), pd_median = (\<lambda>xs. None), pd_std = (\<lambda>xs. None),
      pd_mode = (\<lambda>cs. []), py_float = (\<lambda>s. None), str_convert = (\<lambda>c. c),
      numwoe_aptbinning = (\<lambda>df v b t. Inr []), numwoe_autobinning = (\<lambda>df v t. Inr []),
      catwoe_autobinning = (\<lambda>df v t. Inr []),
      num_bin_value = (\<lambda>ref c. NaN), cat_bin_value = (\<lambda>ref c. NaN),
      np_where_gt = (\<lambda>d k cs. None), np_normalize = (\<lambda>d d1 d2 m sd cs. None),
      np_scale = (\<lambda>d d1 d2 mn mx cs. None)\<rparr>"

text \<open>A numerical variable whose imputation token is a string other than mean or median.\<close>

definition bad_token_cfg :: table where
  "bad_token_cfg =
     \<lparr>header = allow_header, rows = [impute_row\<lparr>Missing_Impute := Str ''average''\<rparr>],
      stat_dtype = (\<lambda>col. Float64)\<rparr>"

text \<open>
  A Woe component whose reference table is present but holds rows of \<open>z\<close> only, while
  the apply list names \<open>x\<close>.
\<close>

definition woe_other :: woe_component where
  "woe_other =
     \<lparr>woe_config = ex_ref,
      woe_reference = Some [\<lparr>woe_Var_Name = ''z'', woe_Var_Type = ''numerical'',
                             Var_Value = Str ''(-inf, 0]'', Ref_Value = Num 1\<rparr>],
      woe_target = Some ''y'', woe_apply_list = [''x'']\<rparr>"

definition woe_x :: woe_component where
  "woe_x =
     \<lparr>woe_config = ex_ref,
      woe_reference = Some [\<lparr>woe_Var_Name = ''x'', woe_Var_Type = ''numerical'',
                             Var_Value = Str ''(-inf, 0]'', Ref_Value = Num 1\<rparr>],
      woe_target = Some ''y'', woe_apply_list = [''x'']\<rparr>"

definition xz_df :: dataset where
  "xz_df = [(''x'', \<lparr>dtype = Float64, cells = [Num 1, Num 2]\<rparr>),
            (''z'', \<lparr>dtype = Float64, cells = [Num 0, Num 5]\<rparr>)]"

text \<open>
  The cells at which the scan of filt_corr finds a value above the threshold, in scan
  order, each as (row label \<open>idx\<close>, column label \<open>col\<close>): a record kept beside the scan,
  which itself keeps none. \<open>marked\<close> is the set of labels the scan has set to the
  sentinel.
\<close>

fun trace_column :: "real \<Rightarrow> string \<Rightarrow> string list \<Rightarrow> corr_matrix \<Rightarrow> string list" where
  "trace_column thresh col [] corr = []"
| "trace_column thresh col (idx # idxs) corr =
     (if exceeds (val corr idx col) thresh
      then idx # trace_column thresh col idxs (mark idx corr)
      else trace_column thresh col idxs corr)"

fun trace_scan :: "real \<Rightarrow> string list \<Rightarrow> corr_matrix \<Rightarrow> (string \<times> string) list" where
  "trace_scan thresh [] corr = []"
| "trace_scan thresh (col # cols) corr =
     map (\<lambda>idx. (idx, col)) (trace_column thresh col (labels corr) corr)
     @ trace_scan thresh cols (scan_column thresh col corr)"

definition firing_cells :: "real \<Rightarrow> corr_matrix \<Rightarrow> (string \<times> string) list" where
  "firing_cells thresh corr = trace_scan thresh (labels corr) corr"

definition marked :: "real \<Rightarrow> corr_matrix \<Rightarrow> string set" where
  "marked thresh corr = fst ` set (firing_cells thresh corr)"

text \<open>The labels that come before \<open>col\<close> in the iteration order.\<close>

definition before :: "string list \<Rightarrow> string \<Rightarrow> string list" where
  "before ls col = takeWhile (\<lambda>l. l \<noteq> col) ls"

text \<open>
  The 3 x 3 matrix of the spec, already transformed: A-B 0.95, A-C 0.2, B-C 0.3 and 0 on
  the diagonal.
\<close>

definition abc_val :: "string \<Rightarrow> string \<Rightarrow> real option" where
  "abc_val r c =
     (if r = c then Some 0
      else if (r, c) \<in> {(''A'', ''B''), (''B'', ''A'')} then Some (95 / 100)
      else if (r, c) \<in> {(''A'', ''C''), (''C'', ''A'')} then Some (2 / 10)
      else Some (3 / 10))"

definition abc :: corr_matrix where
  "abc = \<lparr>labels = [''A'', ''B'', ''C''], val = abc_val\<rparr>"

text \<open>The rows gen_corr removes, in the words of the claim: every cell equals -1.\<close>

definition all_minus_one :: "cell list \<Rightarrow> bool" where
  "all_minus_one row = list_all (\<lambda>c. c = Num (- 1)) row"

text \<open>
  The state of the scan against the matrix \<open>corr0\<close> it started from: the labels in \<open>E\<close>
  are marked and every other cell is as in \<open>corr0\<close>; and no cell of a column in \<open>D\<close>
  and a row in \<open>R\<close> with both labels unmarked exceeds the threshold.
\<close>

definition scan_inv :: "corr_matrix \<Rightarrow> string set \<Rightarrow> corr_matrix \<Rightarrow> bool" where
  "scan_inv corr0 E m = (\<forall>r c. val m r c = (if r \<in> E \<or> c \<in> E then Some (- 1) else val corr0 r c))"

definition scan_clean :: "real \<Rightarrow> corr_matrix \<Rightarrow> string set \<Rightarrow> string set \<Rightarrow> string set \<Rightarrow> bool" where
  "scan_clean t corr0 E D R = (\<forall>c\<in>D. \<forall>r\<in>R. r \<in> E \<or> c \<in> E \<or> \<not> exceeds (val corr0 r c) t)"

text \<open>A stand-in for \<open>df.corr()\<close> whose cells depend on the rows it is given.\<close>

definition row_count_corr :: "frame \<Rightarrow> corr_matrix" where
  "row_count_corr df =
     \<lparr>labels = frame_columns df, val = (\<lambda>r c. Some (real (length (frame_rows df))))\<rparr>"

definition ex_frame :: "cell list list \<Rightarrow> frame" where
  "ex_frame rs = \<lparr>frame_columns = [''a'', ''b''], frame_rows = rs\<rparr>"

text \<open>The 2 x 2 matrix with A-B 0.95 and 0 on the diagonal.\<close>

definition ab :: corr_matrix where
  "ab = \<lparr>labels = [''A'', ''B''], val = (\<lambda>r c. if r = c then Some 0 else Some (95 / 100))\<rparr>"

section \<open>Basic facts\<close>

lemma ebind_Inr_iff: "ebind m f = Inr y \<longleftrightarrow> (\<exists>x. m = Inr x \<and> f x = Inr y)"
  by (cases m) (simp_all add: ebind_def)

lemma ebind_Inl_iff: "ebind m f = Inl e \<longleftrightarrow> m = Inl e \<or> (\<exists>x. m = Inr x \<and> f x = Inl e)"
  by (cases m) (simp_all add: ebind_def)

lemma ebind_simps: "ebind (Inl e) f = Inl e" "ebind (Inr x) f = f x"
  by (simp_all add: ebind_def)

lemma df_col_Inr_iff: "df_col df var = Inr c \<longleftrightarrow> map_of df var = Some c"
  by (simp add: df_col_def split: option.splits)

lemma map_of_df_assign:
  "map_of (df_assign df var vs) v =
     (if v = var then Some (case map_of df var of None \<Rightarrow> \<lparr>dtype = Float64, cells = vs\<rparr>
                                               | Some c \<Rightarrow> c\<lparr>cells := vs\<rparr>)
      else map_of df v)"
  by (simp add: df_assign_def update_conv split: option.splits)

lemma map_of_df_set: "map_of (df_set df var c) v = (if v = var then Some c else map_of df v)"
  by (simp add: df_set_def update_conv)

lemma those_map_eq: "list_all (\<lambda>x. f x = Some (g x)) xs \<Longrightarrow> those (map f xs) = Some (map g xs)"
  by (induction xs) simp_all

lemma those_map_id: "list_all (\<lambda>x. f x = Some x) xs \<Longrightarrow> those (map f xs) = Some xs"
  using those_map_eq[of f "\<lambda>x. x" xs] by simp

lemma those_map_length: "those (map f xs) = Some ys \<Longrightarrow> length ys = length xs"
  by (induction xs arbitrary: ys) (auto split: option.splits)



lemmas ex_simps =
  ex_ref_def ex_row_def ex_df_def allow_header_def new_component_def flagged_def rows_of_def
  iloc0_def ebind_def df_col_def ref_value_def num_only_def df_assign_def df_set_def

section \<open>Cap.apply and Floor.apply\<close>

lemma cap_cell_idem: "cap_cell k (cap_cell k c) = cap_cell k c"
  by (cases c) simp_all

lemma float64_exact_num_only: "float64_exact c \<Longrightarrow> num_only (cells c)"
proof -
  have "to_float64 d x = Some x \<Longrightarrow> \<not> is_str x" for d x by (cases x) simp_all
  then show "float64_exact c \<Longrightarrow> num_only (cells c)"
    by (auto simp: float64_exact_def num_only_def list_all_iff)
qed

lemma cap_series_exact:
  "float64_exact c \<Longrightarrow>
     cap_series ext k c = Inr \<lparr>dtype = Float64, cells = map (cap_cell k) (cells c)\<rparr>"
  using float64_exact_num_only[of c]
  by (simp add: cap_series_def float64_exact_def those_map_id)

lemma float64_exact_capped:
  assumes "float64_exact c"
  shows "float64_exact \<lparr>dtype = Float64, cells = map (cap_cell k) (cells c)\<rparr>"
proof -
  have "to_float64 Float64 (cap_cell k x) = Some (cap_cell k x)" if "\<not> is_str x" for x
    using that by (cases x) simp_all
  with float64_exact_num_only[OF assms] show ?thesis
    by (auto simp: float64_exact_def num_only_def list_all_iff)
qed

lemma Cap_apply_loop_col:
  "Cap_apply_loop ext ref vars df = Inr df' \<Longrightarrow>
   (\<forall>v. v \<in> set vars \<longrightarrow>
      (\<exists>k c c'. cap_of ref v = Some k \<and> map_of df v = Some c \<and> map_of df' v = Some c' \<and>
         (float64_exact c \<longrightarrow> c' = \<lparr>dtype = Float64, cells = map (cap_cell k) (cells c)\<rparr>)))
   \<and> (\<forall>v. v \<notin> set vars \<longrightarrow> map_of df' v = map_of df v)"
proof (induction vars arbitrary: df)
  case Nil
  then show ?case by simp
next
  case (Cons var vars)
  from Cons.prems obtain r k c c1 where
    r: "iloc0 (rows_of ref var) = Inr r" and k: "Cap_Value r = Some k"
    and c: "map_of df var = Some c" and s: "cap_series ext k c = Inr c1"
    and rest: "Cap_apply_loop ext ref vars (df_set df var c1) = Inr df'"
    by (auto simp: ebind_Inr_iff df_col_Inr_iff split: option.splits)
  let ?df1 = "df_set df var c1"
  let ?capped = "\<lparr>dtype = Float64, cells = map (cap_cell k) (cells c)\<rparr>"
  have kv: "cap_of ref var = Some k"
    using r k by (auto simp: cap_of_def iloc0_def split: list.splits)
  have c1: "map_of ?df1 var = Some c1"
    by (simp add: map_of_df_set)
  have ex: "c1 = ?capped" if "float64_exact c"
    using s cap_series_exact[OF that, of ext k] by simp
  note IH = Cons.IH[OF rest]
  show ?case
  proof (intro conjI allI impI)
    fix v assume v: "v \<in> set (var # vars)"
    show "\<exists>k c c'. cap_of ref v = Some k \<and> map_of df v = Some c \<and> map_of df' v = Some c' \<and>
         (float64_exact c \<longrightarrow> c' = \<lparr>dtype = Float64, cells = map (cap_cell k) (cells c)\<rparr>)"
    proof (cases "v \<in> set vars")
      case True
      with IH obtain k' d d' where
        h: "cap_of ref v = Some k'" "map_of ?df1 v = Some d" "map_of df' v = Some d'"
           "float64_exact d \<longrightarrow> d' = \<lparr>dtype = Float64, cells = map (cap_cell k') (cells d)\<rparr>"
        by blast
      show ?thesis
      proof (cases "v = var")
        case True
        with h kv c1 have eq: "k' = k" "d = c1" by auto
        have "d' = ?capped" if e: "float64_exact c"
        proof -
          from ex[OF e] have c1eq: "c1 = ?capped" .
          with float64_exact_capped[OF e, of k] have "float64_exact c1" by simp
          with h(4) eq have "d' = \<lparr>dtype = Float64, cells = map (cap_cell k) (cells c1)\<rparr>"
            by simp
          with c1eq show ?thesis by (simp add: cap_cell_idem)
        qed
        with h(3) True kv c show ?thesis by blast
      next
        case False
        with h show ?thesis by (simp add: map_of_df_set)
      qed
    next
      case False
      with v have "v = var" by simp
      moreover from False IH have "map_of df' v = map_of ?df1 v" by blast
      ultimately show ?thesis using kv c c1 ex by auto
    qed
  next
    fix v assume "v \<notin> set (var # vars)"
    with IH show "map_of df' v = map_of df v" by (simp add: map_of_df_set)
  qed
qed

text \<open>
  Cap.apply returns whenever every variable of the apply list has a cap and a column that
  the conversion to float64 leaves as it is.
\<close>

lemma Cap_apply_loop_returns:
  "(\<forall>v\<in>set vars. cap_of ref v \<noteq> None \<and> (\<exists>c. map_of df v = Some c \<and> float64_exact c))
   \<Longrightarrow> \<exists>df'. Cap_apply_loop ext ref vars df = Inr df'"
proof (induction vars arbitrary: df)
  case Nil
  then show ?case by simp
next
  case (Cons var vars)
  from Cons.prems obtain k c where k: "cap_of ref var = Some k"
    and c: "map_of df var = Some c" "float64_exact c" by auto
  from k obtain r where r: "iloc0 (rows_of ref var) = Inr r" "Cap_Value r = Some k"
    by (auto simp: cap_of_def iloc0_def split: list.splits)
  let ?df1 = "df_set df var \<lparr>dtype = Float64, cells = map (cap_cell k) (cells c)\<rparr>"
  have "\<forall>v\<in>set vars. cap_of ref v \<noteq> None \<and> (\<exists>c. map_of ?df1 v = Some c \<and> float64_exact c)"
    using Cons.prems c float64_exact_capped[OF c(2), of k] by (auto simp: map_of_df_set)
  from Cons.IH[OF this] obtain df' where "Cap_apply_loop ext ref vars ?df1 = Inr df'" ..
  with r c show ?case by (simp add: ebind_simps df_col_def cap_series_exact)
qed

lemma Cap_apply_returns:
  "(\<forall>v\<in>set (apply_list self). cap_of (reference self) v \<noteq> None \<and>
      (\<exists>c. map_of df v = Some c \<and> float64_exact c))
   \<Longrightarrow> \<exists>df'. Cap_apply ext self df = Inr df'"
  unfolding Cap_apply_def by (rule Cap_apply_loop_returns)

text \<open>
  C6, as amended: when Cap.apply returns, every variable of the apply list has a non-null
  fitted cap and a column in the dataset. When that column is a float64 column, or a
  column of an integer dtype whose values are all representable in float64, then in the
  column Cap.apply leaves a missing cell is still missing, a value at or below the cap
  is unchanged, so never increased, and a value above the cap is exactly the cap.
\<close>

theorem Cap_apply_clamps:
  assumes "Cap_apply ext self df_master = Inr df'" and "var \<in> set (apply_list self)"
  shows "\<exists>r cap_value c c'.
           iloc0 (rows_of (reference self) var) = Inr r \<and> Cap_Value r = Some cap_value \<and>
           map_of df_master var = Some c \<and> map_of df' var = Some c' \<and>
           (float64_exact c \<longrightarrow>
              length (cells c') = length (cells c) \<and>
              (\<forall>i < length (cells c).
                 (cells c ! i = NaN \<and> cells c' ! i = NaN) \<or>
                 (\<exists>x. cells c ! i = Num x \<and> x \<le> cap_value \<and> cells c' ! i = Num x) \<or>
                 (\<exists>x. cells c ! i = Num x \<and> x > cap_value \<and> cells c' ! i = Num cap_value)))"
proof -
  from Cap_apply_loop_col[OF assms(1)[unfolded Cap_apply_def]] assms(2)
  obtain k c c' where h: "cap_of (reference self) var = Some k" "map_of df_master var = Some c"
    "map_of df' var = Some c'"
    "float64_exact c \<longrightarrow> c' = \<lparr>dtype = Float64, cells = map (cap_cell k) (cells c)\<rparr>"
    by blast
  from h(1) obtain r where r: "iloc0 (rows_of (reference self) var) = Inr r" "Cap_Value r = Some k"
    by (auto simp: cap_of_def iloc0_def split: list.splits)
  have cellwise: "(cells c ! i = NaN \<and> cap_cell k (cells c ! i) = NaN) \<or>
              (\<exists>x. cells c ! i = Num x \<and> x \<le> k \<and> cap_cell k (cells c ! i) = Num x) \<or>
              (\<exists>x. cells c ! i = Num x \<and> x > k \<and> cap_cell k (cells c ! i) = Num k)"
    if "float64_exact c" "i < length (cells c)" for i
  proof -
    from float64_exact_num_only[OF that(1)] that(2) have "\<not> is_str (cells c ! i)"
      by (simp add: num_only_def list_all_length)
    then show ?thesis by (cases "cells c ! i") auto
  qed
  have "length (cells c') = length (cells c) \<and>
        (\<forall>i < length (cells c).
              (cells c ! i = NaN \<and> cells c' ! i = NaN) \<or>
              (\<exists>x. cells c ! i = Num x \<and> x \<le> k \<and> cells c' ! i = Num x) \<or>
              (\<exists>x. cells c ! i = Num x \<and> x > k \<and> cells c' ! i = Num k))"
    if e: "float64_exact c"
  proof -
    from h(4) e have "cells c' = map (cap_cell k) (cells c)" by simp
    with cellwise[OF e] show ?thesis by simp
  qed
  with r h(2,3) show ?thesis by blast
qed

lemma ex_Cap_apply:
  "Cap_apply ex_ext (Cap_init ex_ref None) ex_df =
     Inr [(''x'', \<lparr>dtype = Float64, cells = [Num (- 10), Num 3, NaN, Num 10]\<rparr>)]"
  by (simp add: Cap_apply_def Cap_init_def cap_series_def ex_simps)

theorem Cap_apply_clamps_witness:
  "Cap_apply ex_ext (Cap_init ex_ref None) ex_df =
     Inr [(''x'', \<lparr>dtype = Float64, cells = [Num (- 10), Num 3, NaN, Num 10]\<rparr>)]
   \<and> ''x'' \<in> set (apply_list (Cap_init ex_ref None))
   \<and> iloc0 (rows_of (reference (Cap_init ex_ref None)) ''x'') = Inr ex_row
   \<and> Cap_Value ex_row = Some 10
   \<and> map_of ex_df ''x'' = Some \<lparr>dtype = Float64, cells = [Num (- 10), Num 3, NaN, Num 12]\<rparr>
   \<and> float64_exact \<lparr>dtype = Float64, cells = [Num (- 10), Num 3, NaN, Num 12]\<rparr>"
proof -
  have mem: "''x'' \<in> set (apply_list (Cap_init ex_ref None))"
    by (simp add: Cap_init_def ex_simps)
  have row: "iloc0 (rows_of (reference (Cap_init ex_ref None)) ''x'') = Inr ex_row
             \<and> Cap_Value ex_row = Some 10"
    by (simp add: Cap_init_def ex_simps)
  have col: "map_of ex_df ''x'' = Some \<lparr>dtype = Float64, cells = [Num (- 10), Num 3, NaN, Num 12]\<rparr>
             \<and> float64_exact \<lparr>dtype = Float64, cells = [Num (- 10), Num 3, NaN, Num 12]\<rparr>"
    by (simp add: ex_df_def float64_exact_def)
  from Cap_apply_clamps [OF ex_Cap_apply mem] ex_Cap_apply mem row col
  show ?thesis by blast
qed

text \<open>
  The claim as stated fails on an int64 column: the cap \<open>10^16\<close> is above both values
  of the column, whose conversion to float64 turns \<open>2^53 + 1\<close> into \<open>2^53\<close> and
  \<open>2^53 + 3\<close> into \<open>2^53 + 4\<close>. The second value was below the cap and is increased.
\<close>

theorem Cap_apply_int64_counterexample:
  "Cap_apply ex_ext (Cap_init wide_ref None) wide_df =
     Inr [(''x'', \<lparr>dtype = Float64, cells = [Num 9007199254740992, Num 9007199254740996]\<rparr>)]
   \<and> apply_list (Cap_init wide_ref None) = [''x'']
   \<and> map Cap_Value (rows_of (reference (Cap_init wide_ref None)) ''x'')
       = [Some 10000000000000000]
   \<and> map_of wide_df ''x''
       = Some \<lparr>dtype = Int64, cells = [Num 9007199254740993, Num 9007199254740995]\<rparr>
   \<and> (9007199254740995 :: real) \<le> 10000000000000000
   \<and> (9007199254740995 :: real) < 9007199254740996"
proof -
  have b: "bitlen 9007199254740993 = 54" "bitlen 9007199254740995 = 54"
    by (simp_all add: bitlen.simps)
  have f: "float64_of_int 9007199254740993 = 9007199254740992"
          "float64_of_int 9007199254740995 = 9007199254740996"
    by (simp_all add: float64_of_int_def round_half_even_def b Let_def)
  show ?thesis
    by (simp add: Cap_apply_def Cap_init_def cap_series_def wide_ref_def wide_df_def
          is_int64_def f ex_row_def allow_header_def new_component_def flagged_def rows_of_def
          iloc0_def ebind_def df_col_def num_only_def df_set_def)
qed

lemma Floor_apply_loop_unchanged: "Floor_apply_loop ref vars df = Inr df' \<Longrightarrow> df' = df"
  by (induction vars) (auto simp: ebind_Inr_iff split: option.splits)

lemma Floor_apply_unchanged: "Floor_apply self df = Inr df' \<Longrightarrow> df' = df"
  unfolding Floor_apply_def by (rule Floor_apply_loop_unchanged)

text \<open>
  C1: the floor of \<open>x\<close> is fitted as -5, \<open>x\<close> is in the apply list and its first value
  is -10. Floor.apply returns the dataset as it was, with -10 still in place, where the
  clamp of the claim gives -5.
\<close>

theorem Floor_apply_keeps_value_below_floor:
  "Floor_apply (Floor_init ex_ref None) ex_df =
     Inr [(''x'', \<lparr>dtype = Float64, cells = [Num (- 10), Num 3, NaN, Num 12]\<rparr>)]
   \<and> apply_list (Floor_init ex_ref None) = [''x'']
   \<and> map Floor_Value (rows_of (reference (Floor_init ex_ref None)) ''x'') = [Some (- 5)]
   \<and> map (floor_cell (- 5)) [Num (- 10), Num 3, NaN, Num 12] = [Num (- 5), Num 3, NaN, Num 12]"
  by (simp add: Floor_apply_def Floor_init_def ex_simps)

section \<open>The degenerate-statistic checks of Normalize.apply and Scale.apply\<close>








section \<open>Scale.apply\<close>

lemma clamp_unit_range: "unit_or_missing (clamp_unit q)"
  by (cases q) auto

lemma clamp_cells_unit: "list_all unit_or_missing (map clamp_unit q)"
  by (simp add: list_all_iff clamp_unit_range)

lemma sub64_cell_fits:
  "\<not> is_str x \<Longrightarrow> sub_fits mn x \<Longrightarrow>
     sub64_cell mn x = Some (case x of Num v \<Rightarrow> FNum (v - mn) | _ \<Rightarrow> FNaN)"
  by (cases x) (simp_all add: fsub64_def)

lemma clamp_scale_cell:
  "\<not> is_str x \<Longrightarrow>
     clamp_unit (fdiv64 (case x of Num v \<Rightarrow> FNum (v - mn) | _ \<Rightarrow> FNaN) (FNum (mx - mn)))
       = scale_cell mn mx x"
  by (cases x) (simp_all add: Let_def)

lemma scale_series_float64:
  assumes "float64_scaling dmin dmax mn mx c" and "mx \<noteq> mn"
  shows "\<exists>q. scale_series ext dmin dmax mn mx c = Inr (Float64, q) \<and>
             map clamp_unit q = map (scale_cell mn mx) (cells c)"
proof -
  let ?g = "\<lambda>x. case x of Num v \<Rightarrow> FNum (v - mn) | _ \<Rightarrow> FNaN"
  from assms(1) have d: "dmin = Float64" "dmax = Float64" and e: "float64_exact c"
    and f: "fits_float64 (mx - mn)" and fs: "list_all (sub_fits mn) (cells c)"
    by (simp_all add: float64_scaling_def)
  from float64_exact_num_only[OF e] have n: "num_only (cells c)" .
  from e have t: "those (map (to_float64 (dtype c)) (cells c)) = Some (cells c)"
    by (simp add: float64_exact_def those_map_id)
  from n fs have "list_all (\<lambda>x. sub64_cell mn x = Some (?g x)) (cells c)"
    by (auto simp: num_only_def list_all_iff sub64_cell_fits)
  then have s: "those (map (sub64_cell mn) (cells c)) = Some (map ?g (cells c))"
    by (rule those_map_eq)
  from f have m: "fsub64 mx mn = Some (FNum (mx - mn))" by (simp add: fsub64_def)
  have sf: "scale_float64 dmin dmax mn mx c
              = Some (map (\<lambda>n. fdiv64 n (FNum (mx - mn))) (map ?g (cells c)))"
    by (simp add: scale_float64_def d m t s del: map_map)
  have "map clamp_unit (map (\<lambda>n. fdiv64 n (FNum (mx - mn))) (map ?g (cells c)))
          = map (scale_cell mn mx) (cells c)"
    using n by (auto simp: num_only_def list_all_iff clamp_scale_cell)
  with sf n assms(2) show ?thesis by (simp add: scale_series_def del: map_map)
qed

lemma real_name_Some:
  "real_name cfg var = Some rv \<Longrightarrow> resolve_real_var cfg var prev = Inr (Some rv)"
  by (auto simp: real_name_def resolve_real_var_def ebind_def Let_def
           split: sum.splits if_splits)

lemma resolve_cases:
  "resolve_real_var cfg var prev = Inr rvo \<Longrightarrow>
     real_name cfg var = rvo \<or> (real_name cfg var = None \<and> rvo = prev)"
  by (auto simp: real_name_def resolve_real_var_def ebind_def Let_def
           split: sum.splits if_splits)

lemma Scale_step:
  assumes "Scale_apply_loop ext self (v # vs) prev df = Inr df'"
  shows "\<exists>rn mn mx c d q.
           resolve_real_var (config self) v prev = Inr (Some rn) \<and>
           ref_value (reference self) ''Min'' Min_Value v = Inr (Some mn) \<and>
           ref_value (reference self) ''Max'' Max_Value v = Inr (Some mx) \<and>
           mx \<noteq> mn \<and> map_of df rn = Some c \<and>
           scale_series ext (stat_dtype (reference self) ''Min'')
             (stat_dtype (reference self) ''Max'') mn mx c = Inr (d, q) \<and>
           Scale_apply_loop ext self vs (Some rn)
             (df_set df rn \<lparr>dtype = d, cells = map clamp_unit q\<rparr>) = Inr df'"
proof -
  from assms obtain rvo var_min var_max where
    a: "resolve_real_var (config self) v prev = Inr rvo"
       "ref_value (reference self) ''Min'' Min_Value v = Inr var_min"
       "ref_value (reference self) ''Max'' Max_Value v = Inr var_max"
    and b: "(case (var_min, var_max) of
             (Some mn, Some mx) \<Rightarrow>
               if mx - mn = 0 then Inl (MaxEqualMin v)
               else
                 ebind (real_col df rvo) (\<lambda>(real_var, c).
                   ebind (scale_series ext (stat_dtype (reference self) ''Min'')
                            (stat_dtype (reference self) ''Max'') mn mx c) (\<lambda>(d, q).
                     Scale_apply_loop ext self vs rvo
                       (df_set df real_var \<lparr>dtype = d, cells = map clamp_unit q\<rparr>)))
           | _ \<Rightarrow> Inl (NotFoundValue ''max or min'' v)) = Inr df'"
    by (auto simp: ebind_Inr_iff)
  from b obtain mn mx where mm: "var_min = Some mn" "var_max = Some mx" "mx \<noteq> mn"
    by (auto split: option.splits if_splits)
  with b obtain rn c d q where rc: "real_col df rvo = Inr (rn, c)"
    and q: "scale_series ext (stat_dtype (reference self) ''Min'')
              (stat_dtype (reference self) ''Max'') mn mx c = Inr (d, q)"
    and rest: "Scale_apply_loop ext self vs rvo
        (df_set df rn \<lparr>dtype = d, cells = map clamp_unit q\<rparr>) = Inr df'"
    by (auto simp: ebind_Inr_iff split: if_splits)
  from rc have rvo: "rvo = Some rn" and c: "map_of df rn = Some c"
    by (auto simp: real_col_def ebind_Inr_iff df_col_Inr_iff split: option.splits)
  from rest a mm rvo c q show ?thesis by blast
qed

lemma Scale_loop_frame:
  "Scale_apply_loop ext self vars prev df = Inr df' \<Longrightarrow>
     (\<exists>c. map_of df' n = Some c \<and> list_all unit_or_missing (cells c)) \<or> map_of df' n = map_of df n"
proof (induction vars arbitrary: prev df)
  case Nil
  then show ?case by simp
next
  case (Cons v vs)
  from Scale_step[OF Cons.prems] obtain rn d q where
    rest: "Scale_apply_loop ext self vs (Some rn)
             (df_set df rn \<lparr>dtype = d, cells = map clamp_unit q\<rparr>) = Inr df'" by blast
  from Cons.IH[OF rest] show ?case
    by (auto simp: map_of_df_set clamp_cells_unit split: if_splits)
qed

lemma Scale_loop_range:
  "Scale_apply_loop ext self vars prev df = Inr df' \<Longrightarrow> var \<in> set vars \<Longrightarrow>
   real_name (config self) var = Some rv \<Longrightarrow>
     \<exists>mn mx c'. ref_value (reference self) ''Min'' Min_Value var = Inr (Some mn) \<and>
        ref_value (reference self) ''Max'' Max_Value var = Inr (Some mx) \<and> mx \<noteq> mn \<and>
        map_of df' rv = Some c' \<and> list_all unit_or_missing (cells c')"
proof (induction vars arbitrary: prev df)
  case Nil
  then show ?case by simp
next
  case (Cons v vs)
  from Scale_step[OF Cons.prems(1)] obtain rn mn mx d q where
    s: "resolve_real_var (config self) v prev = Inr (Some rn)"
       "ref_value (reference self) ''Min'' Min_Value v = Inr (Some mn)"
       "ref_value (reference self) ''Max'' Max_Value v = Inr (Some mx)" "mx \<noteq> mn"
    and rest: "Scale_apply_loop ext self vs (Some rn)
             (df_set df rn \<lparr>dtype = d, cells = map clamp_unit q\<rparr>) = Inr df'" by blast
  show ?case
  proof (cases "var = v")
    case True
    with Cons.prems(3) s(1) have "rn = rv" by (simp add: real_name_Some)
    with Scale_loop_frame[OF rest, of rv]
    have "\<exists>c'. map_of df' rv = Some c' \<and> list_all unit_or_missing (cells c')"
      by (auto simp: map_of_df_set clamp_cells_unit)
    with s True show ?thesis by blast
  next
    case False
    with Cons.prems(2) have "var \<in> set vs" by simp
    from Cons.IH[OF rest this Cons.prems(3)] show ?thesis .
  qed
qed

lemma Scale_loop_untouched:
  "Scale_apply_loop ext self vars prev df = Inr df' \<Longrightarrow> writers (config self) rv vars = [] \<Longrightarrow>
     map_of df' rv = map_of df rv"
proof (induction vars arbitrary: prev df)
  case Nil
  then show ?case by simp
next
  case (Cons v vs)
  from Scale_step[OF Cons.prems(1)] obtain rn d q where
    s: "resolve_real_var (config self) v prev = Inr (Some rn)"
    and rest: "Scale_apply_loop ext self vs (Some rn)
             (df_set df rn \<lparr>dtype = d, cells = map clamp_unit q\<rparr>) = Inr df'" by blast
  from Cons.prems(2) have w: "real_name (config self) v \<noteq> None"
    "real_name (config self) v \<noteq> Some rv" "writers (config self) rv vs = []"
    by (auto simp: writers_def split: if_splits)
  from resolve_cases[OF s] w have "rn \<noteq> rv" by auto
  with Cons.IH[OF rest w(3)] show ?case by (simp add: map_of_df_set)
qed

lemma Scale_loop_formula:
  "Scale_apply_loop ext self vars prev df = Inr df' \<Longrightarrow> writers (config self) rv vars = [var] \<Longrightarrow>
   real_name (config self) var = Some rv \<Longrightarrow>
     \<exists>mn mx c c'. ref_value (reference self) ''Min'' Min_Value var = Inr (Some mn) \<and>
        ref_value (reference self) ''Max'' Max_Value var = Inr (Some mx) \<and>
        map_of df rv = Some c \<and> map_of df' rv = Some c' \<and>
        (float64_scaling (stat_dtype (reference self) ''Min'')
           (stat_dtype (reference self) ''Max'') mn mx c \<longrightarrow>
         c' = \<lparr>dtype = Float64, cells = map (scale_cell mn mx) (cells c)\<rparr>)"
proof (induction vars arbitrary: prev df)
  case Nil
  then show ?case by (simp add: writers_def)
next
  case (Cons v vs)
  from Scale_step[OF Cons.prems(1)] obtain rn mn mx c d q where
    s: "resolve_real_var (config self) v prev = Inr (Some rn)"
       "ref_value (reference self) ''Min'' Min_Value v = Inr (Some mn)"
       "ref_value (reference self) ''Max'' Max_Value v = Inr (Some mx)"
       "mx \<noteq> mn" "map_of df rn = Some c"
    and q: "scale_series ext (stat_dtype (reference self) ''Min'')
              (stat_dtype (reference self) ''Max'') mn mx c = Inr (d, q)"
    and rest: "Scale_apply_loop ext self vs (Some rn)
             (df_set df rn \<lparr>dtype = d, cells = map clamp_unit q\<rparr>) = Inr df'" by blast
  show ?case
  proof (cases "real_name (config self) v = None \<or> real_name (config self) v = Some rv")
    case True
    with Cons.prems(2) have v: "v = var" and w: "writers (config self) rv vs = []"
      by (auto simp: writers_def)
    from v Cons.prems(3) s(1) have rn: "rn = rv" by (simp add: real_name_Some)
    from Scale_loop_untouched[OF rest w] rn
    have out: "map_of df' rv = Some \<lparr>dtype = d, cells = map clamp_unit q\<rparr>"
      by (simp add: map_of_df_set)
    have "\<lparr>dtype = d, cells = map clamp_unit q\<rparr>
            = \<lparr>dtype = Float64, cells = map (scale_cell mn mx) (cells c)\<rparr>"
      if "float64_scaling (stat_dtype (reference self) ''Min'')
            (stat_dtype (reference self) ''Max'') mn mx c"
      using scale_series_float64[OF that s(4), of ext] q by auto
    with out s v rn show ?thesis by blast
  next
    case False
    with Cons.prems(2) have w: "writers (config self) rv vs = [var]"
      by (auto simp: writers_def)
    from resolve_cases[OF s(1)] False have "rn \<noteq> rv" by auto
    with Cons.IH[OF rest w Cons.prems(3)] show ?thesis
      by (auto simp: map_of_df_set)
  qed
qed

text \<open>
  C4, as amended: when Scale.apply returns, every variable of the apply list has non-null
  fitted Min and Max with Max different from Min, and every cell of its column is either
  missing or a number within [0, 1]. When the variable is the only entry of the apply list
  that writes its column and the scaling is computed in float64 without a conversion that
  changes a value and without overflow, each cell is the input cell scaled by
  \<open>(x - min) / (max - min)\<close> and clamped to 1 and 0, and a missing cell stays missing.
\<close>

theorem Scale_apply_unit_interval:
  assumes "Scale_apply ext self df_master = Inr df'"
    and "var \<in> set (apply_list self)"
    and "real_name (config self) var = Some rv"
  shows "\<exists>mn mx c'.
           ref_value (reference self) ''Min'' Min_Value var = Inr (Some mn) \<and>
           ref_value (reference self) ''Max'' Max_Value var = Inr (Some mx) \<and> mx \<noteq> mn \<and>
           map_of df' rv = Some c' \<and> list_all unit_or_missing (cells c') \<and>
           (writers (config self) rv (apply_list self) = [var] \<longrightarrow>
              (\<exists>c. map_of df_master rv = Some c \<and>
                   (float64_scaling (stat_dtype (reference self) ''Min'')
                      (stat_dtype (reference self) ''Max'') mn mx c \<longrightarrow>
                    cells c' = map (scale_cell mn mx) (cells c))))"
proof -
  from Scale_loop_range[OF assms(1)[unfolded Scale_apply_def] assms(2,3)]
  obtain mn mx c' where r: "ref_value (reference self) ''Min'' Min_Value var = Inr (Some mn)"
    "ref_value (reference self) ''Max'' Max_Value var = Inr (Some mx)" "mx \<noteq> mn"
    "map_of df' rv = Some c'" "list_all unit_or_missing (cells c')" by blast
  have "\<exists>c. map_of df_master rv = Some c \<and>
            (float64_scaling (stat_dtype (reference self) ''Min'')
               (stat_dtype (reference self) ''Max'') mn mx c \<longrightarrow>
             cells c' = map (scale_cell mn mx) (cells c))"
    if "writers (config self) rv (apply_list self) = [var]"
    using Scale_loop_formula[OF assms(1)[unfolded Scale_apply_def] that assms(3)] r by auto
  with r show ?thesis by blast
qed

lemmas scale_simps =
  Scale_apply_def Scale_init_def resolve_real_var_def real_col_def scale_series_def
  scale_float64_def fsub64_def fits_float64_def

lemma ex_Scale_apply:
  "Scale_apply ex_ext (Scale_init ex_ref None) ex_df =
     Inr [(''x'', \<lparr>dtype = Float64, cells = [Num 0, Num (3 / 10), NaN, Num 1]\<rparr>)]"
  by (simp add: scale_simps ex_simps)

theorem Scale_apply_unit_interval_witness:
  "Scale_apply ex_ext (Scale_init ex_ref None) ex_df =
     Inr [(''x'', \<lparr>dtype = Float64, cells = [Num 0, Num (3 / 10), NaN, Num 1]\<rparr>)]
   \<and> ''x'' \<in> set (apply_list (Scale_init ex_ref None))
   \<and> real_name (config (Scale_init ex_ref None)) ''x'' = Some ''x''
   \<and> writers (config (Scale_init ex_ref None)) ''x'' (apply_list (Scale_init ex_ref None)) = [''x'']
   \<and> ref_value (reference (Scale_init ex_ref None)) ''Min'' Min_Value ''x'' = Inr (Some 0)
   \<and> ref_value (reference (Scale_init ex_ref None)) ''Max'' Max_Value ''x'' = Inr (Some 10)
   \<and> map_of ex_df ''x'' = Some \<lparr>dtype = Float64, cells = [Num (- 10), Num 3, NaN, Num 12]\<rparr>
   \<and> float64_scaling (stat_dtype (reference (Scale_init ex_ref None)) ''Min'')
       (stat_dtype (reference (Scale_init ex_ref None)) ''Max'') 0 10
       \<lparr>dtype = Float64, cells = [Num (- 10), Num 3, NaN, Num 12]\<rparr>
   \<and> map (scale_cell 0 10) [Num (- 10), Num 3, NaN, Num 12] = [Num 0, Num (3 / 10), NaN, Num 1]"
proof -
  have mem: "''x'' \<in> set (apply_list (Scale_init ex_ref None))"
    by (simp add: Scale_init_def ex_simps)
  have rn: "real_name (config (Scale_init ex_ref None)) ''x'' = Some ''x''"
    by (simp add: Scale_init_def real_name_def resolve_real_var_def ex_simps)
  have w: "writers (config (Scale_init ex_ref None)) ''x'' (apply_list (Scale_init ex_ref None))
           = [''x'']"
    by (simp add: writers_def Scale_init_def real_name_def resolve_real_var_def ex_simps)
  have mm: "ref_value (reference (Scale_init ex_ref None)) ''Min'' Min_Value ''x'' = Inr (Some 0)
          \<and> ref_value (reference (Scale_init ex_ref None)) ''Max'' Max_Value ''x'' = Inr (Some 10)"
    by (simp add: Scale_init_def ex_simps)
  have col: "map_of ex_df ''x'' = Some \<lparr>dtype = Float64, cells = [Num (- 10), Num 3, NaN, Num 12]\<rparr>"
    by (simp add: ex_df_def)
  have fl: "float64_scaling (stat_dtype (reference (Scale_init ex_ref None)) ''Min'')
       (stat_dtype (reference (Scale_init ex_ref None)) ''Max'') 0 10
       \<lparr>dtype = Float64, cells = [Num (- 10), Num 3, NaN, Num 12]\<rparr>"
    by (simp add: float64_scaling_def float64_exact_def fits_float64_def Scale_init_def ex_simps)
  have cs: "map (scale_cell 0 10) [Num (- 10), Num 3, NaN, Num 12]
              = [Num 0, Num (3 / 10), NaN, Num 1]"
    by simp
  from Scale_apply_unit_interval [OF ex_Scale_apply mem rn] ex_Scale_apply mem rn w mm col fl cs
  show ?thesis by blast
qed

lemma twice_Scale_apply:
  "Scale_apply ex_ext (Scale_init ex_ref (Some [''x'', ''x''])) ex_df =
     Inr [(''x'', \<lparr>dtype = Float64, cells = [Num 0, Num (3 / 100), NaN, Num (1 / 10)]\<rparr>)]"
  by (simp add: scale_simps ex_simps)

lemma int_Scale_fit: "Scale_fit (Scale_init scale_cfg None) int_df = Inr int_scale"
  by (simp add: Scale_fit_def Scale_init_def scale_cfg_def scale_row_def int_df_def int_scale_def
        resolve_real_var_def real_col_def col_stat_def nums_def pd_min_def pd_max_def
        merge_left_def minmax_dtype_def int_dtypes_def stat_as_def Let_def
        ex_row_def allow_header_def new_component_def flagged_def rows_of_def
        iloc0_def ebind_def df_col_def ref_value_def num_only_def)

lemma huge_Scale_fit: "Scale_fit (Scale_init scale_cfg None) huge_df = Inr huge_scale"
  by (simp add: Scale_fit_def Scale_init_def scale_cfg_def scale_row_def huge_df_def huge_scale_def
        resolve_real_var_def real_col_def col_stat_def nums_def pd_min_def pd_max_def
        merge_left_def minmax_dtype_def int_dtypes_def stat_as_def Let_def
        ex_row_def allow_header_def new_component_def flagged_def rows_of_def
        iloc0_def ebind_def df_col_def ref_value_def num_only_def)

lemma int_Scale_apply:
  "Scale_apply ex_ext int_scale int_df =
     Inr [(''x'', \<lparr>dtype = Float64, cells = [Num 0, Num 0, Num 1]\<rparr>)]"
proof -
  have b: "bitlen 6000000000000000000 = 63" "bitlen 6446744073709551616 = 63" "bitlen 0 = 0"
    by (simp_all add: bitlen.simps)
  have f: "float64_of_int 6000000000000000000 = 6000000000000000000"
          "float64_of_int (- 6446744073709551616) = - 6446744073709551616"
          "float64_of_int 0 = 0"
    by (simp_all add: float64_of_int_def round_half_even_def b Let_def)
  have w: "wrap64 12000000000000000000 = - 6446744073709551616"
          "wrap64 6000000000000000000 = 6000000000000000000" "wrap64 0 = 0"
    by (simp_all add: wrap64_def)
  show ?thesis
    by (simp add: scale_simps int_scale_def int_df_def scale_cfg_def scale_row_def is_int64_def
          w f Let_def ex_row_def allow_header_def rows_of_def
          iloc0_def ebind_def df_col_def ref_value_def num_only_def df_set_def)
qed

lemma huge_Scale_apply:
  "Scale_apply ex_ext huge_scale huge_df =
     Inr [(''x'', \<lparr>dtype = Float64, cells = [Num 0, Num 0, NaN]\<rparr>)]"
  by (simp add: scale_simps huge_scale_def huge_df_def scale_cfg_def scale_row_def
        ex_row_def allow_header_def rows_of_def
        iloc0_def ebind_def df_col_def ref_value_def num_only_def df_set_def)

lemma wide_Scale_apply:
  "Scale_apply ex_ext wide_scale wide_df =
     Inr [(''x'', \<lparr>dtype = Float64,
                 cells = [Num (1 / 2), Num (9007199254740996 / 18014398509481984)]\<rparr>)]"
proof -
  have b: "bitlen 9007199254740993 = 54" "bitlen 9007199254740995 = 54"
    by (simp_all add: bitlen.simps)
  have f: "float64_of_int 9007199254740993 = 9007199254740992"
          "float64_of_int 9007199254740995 = 9007199254740996"
    by (simp_all add: float64_of_int_def round_half_even_def b Let_def)
  show ?thesis
    by (simp add: scale_simps wide_scale_def wide_df_def scale_row_def is_int64_def f Let_def
          ex_row_def allow_header_def new_component_def flagged_def rows_of_def
          iloc0_def ebind_def df_col_def ref_value_def num_only_def df_set_def)
qed

text \<open>
  The claim as stated fails in five ways. On a dataset with a missing value the cell
  produced for it is missing, which is no number within [0, 1]. With \<open>x\<close> twice in the
  apply list the column is scaled twice: 3 becomes 3/100, where the formula gives 3/10. On
  the int64 column, with the int64 Min and Max that Scale.fit takes from it, \<open>x - min\<close>
  and \<open>max - min\<close> wrap around: 0 becomes 0, where the formula gives 1/2. On the float64
  column with Min \<open>-2^1023\<close> and Max \<open>2^1023\<close>, \<open>max - min\<close> is infinite: 0 becomes 0,
  where the formula gives 1/2, and \<open>2^1023\<close> becomes missing. On the int64 column
  \<open>wide_df\<close> with the float64 Min 0 and Max \<open>2^54\<close> the values are converted to float64
  before the subtraction: \<open>2^53 + 1\<close> becomes \<open>2^53 / 2^54\<close>, which is 1/2, where the
  formula gives \<open>(2^53 + 1) / 2^54\<close>.
\<close>

theorem Scale_apply_formula_counterexample:
  "Scale_apply ex_ext (Scale_init ex_ref None) ex_df =
     Inr [(''x'', \<lparr>dtype = Float64, cells = [Num 0, Num (3 / 10), NaN, Num 1]\<rparr>)]
   \<and> apply_list (Scale_init ex_ref None) = [''x'']
   \<and> ref_value (reference (Scale_init ex_ref None)) ''Min'' Min_Value ''x'' = Inr (Some 0)
   \<and> ref_value (reference (Scale_init ex_ref None)) ''Max'' Max_Value ''x'' = Inr (Some 10)
   \<and> \<not> list_all in_unit_interval [Num 0, Num (3 / 10), NaN, Num 1]
   \<and> Scale_apply ex_ext (Scale_init ex_ref (Some [''x'', ''x''])) ex_df =
       Inr [(''x'', \<lparr>dtype = Float64, cells = [Num 0, Num (3 / 100), NaN, Num (1 / 10)]\<rparr>)]
   \<and> map (scale_cell 0 10) (cells (snd (hd ex_df))) = [Num 0, Num (3 / 10), NaN, Num 1]
   \<and> Scale_fit (Scale_init scale_cfg None) int_df = Inr int_scale
   \<and> Scale_apply ex_ext int_scale int_df =
       Inr [(''x'', \<lparr>dtype = Float64, cells = [Num 0, Num 0, Num 1]\<rparr>)]
   \<and> map (scale_cell (- 6000000000000000000) 6000000000000000000) (cells (snd (hd int_df)))
       = [Num 0, Num (1 / 2), Num 1]
   \<and> Scale_fit (Scale_init scale_cfg None) huge_df = Inr huge_scale
   \<and> Scale_apply ex_ext huge_scale huge_df =
       Inr [(''x'', \<lparr>dtype = Float64, cells = [Num 0, Num 0, NaN]\<rparr>)]
   \<and> map (scale_cell (- (2 ^ 1023)) (2 ^ 1023)) (cells (snd (hd huge_df)))
       = [Num 0, Num (1 / 2), Num 1]
   \<and> Scale_apply ex_ext wide_scale wide_df =
       Inr [(''x'', \<lparr>dtype = Float64,
                   cells = [Num (1 / 2), Num (9007199254740996 / 18014398509481984)]\<rparr>)]
   \<and> map (scale_cell 0 18014398509481984) (cells (snd (hd wide_df)))
       = [Num (9007199254740993 / 18014398509481984),
          Num (9007199254740995 / 18014398509481984)]
   \<and> (9007199254740993 / 18014398509481984 :: real) \<noteq> 1 / 2"
proof -
  have a: "apply_list (Scale_init ex_ref None) = [''x'']
     \<and> ref_value (reference (Scale_init ex_ref None)) ''Min'' Min_Value ''x'' = Inr (Some 0)
     \<and> ref_value (reference (Scale_init ex_ref None)) ''Max'' Max_Value ''x'' = Inr (Some 10)
     \<and> \<not> list_all in_unit_interval [Num 0, Num (3 / 10), NaN, Num 1]"
    by (simp add: Scale_init_def ex_simps)
  have b: "map (scale_cell 0 10) (cells (snd (hd ex_df))) = [Num 0, Num (3 / 10), NaN, Num 1]"
    by (simp add: ex_df_def)
  have c: "map (scale_cell (- 6000000000000000000) 6000000000000000000) (cells (snd (hd int_df)))
       = [Num 0, Num (1 / 2), Num 1]"
    by (simp add: int_df_def)
  have d: "map (scale_cell (- (2 ^ 1023)) (2 ^ 1023)) (cells (snd (hd huge_df)))
       = [Num 0, Num (1 / 2), Num 1]"
    by (simp add: huge_df_def Let_def)
  have e: "map (scale_cell 0 18014398509481984) (cells (snd (hd wide_df)))
       = [Num (9007199254740993 / 18014398509481984),
          Num (9007199254740995 / 18014398509481984)]
     \<and> (9007199254740993 / 18014398509481984 :: real) \<noteq> 1 / 2"
    by (simp add: wide_df_def Let_def)
  from a b c d e ex_Scale_apply twice_Scale_apply int_Scale_fit int_Scale_apply
    huge_Scale_fit huge_Scale_apply wide_Scale_apply
  show ?thesis by simp
qed

section \<open>MissingImpute, end to end\<close>

lemmas impute_simps =
  impute_cfg_def impute_row_def impute_ref_def impute_df_def imputed_df_def allow_header_def
  new_component_def flagged_def rows_of_def iloc0_def ebind_def df_col_def df_assign_def
  num_only_def set_rows_def

lemma ex_MissingImpute_fit:
  "MissingImpute_fit ext (MissingImpute_init impute_cfg None) impute_df =
     Inr \<lparr>config = impute_cfg, reference = impute_ref, apply_list = [''x'']\<rparr>"
  by (simp add: MissingImpute_fit_def MissingImpute_init_def impute_value_of_def col_stat_def
      pd_mean_def nums_def impute_simps)

lemma ex_MissingImpute_apply:
  "MissingImpute_apply ext \<lparr>config = impute_cfg, reference = impute_ref, apply_list = [''x'']\<rparr>
     impute_df = Inr imputed_df"
  by (simp add: MissingImpute_apply_def missing_vars_def impute_simps)

lemma ex_check: "check_config_file (Tactic_init impute_cfg (Some [MissingImpute]) None None) impute_df = Inr 0"
  by (simp add: check_config_file_def Tactic_init_def df_columns_def num_type_list_def
      cag_type_list_def impute_simps)

lemma ex_Tactic_fit:
  "Tactic_fit ext (Tactic_init impute_cfg (Some [MissingImpute]) None None) impute_df =
     (Inr impute_ref,
      (Tactic_init impute_cfg (Some [MissingImpute]) None None)\<lparr>tactic_reference := impute_ref\<rparr>,
      impute_df)"
proof -
  have fit: "MissingImpute_fit ext (MissingImpute_init impute_cfg None) impute_df =
     Inr \<lparr>config = impute_cfg, reference = impute_ref, apply_list = [''x'']\<rparr>"
    by (rule ex_MissingImpute_fit)
  show ?thesis
    unfolding Tactic_fit_def ex_check
    by (simp add: Tactic_init_def compile_def fit ex_MissingImpute_apply ebind_simps)
qed

lemma ex_Tactic_apply:
  "Tactic_apply ext
     ((Tactic_init impute_cfg (Some [MissingImpute]) None None)\<lparr>tactic_reference := impute_ref\<rparr>)
     impute_df = Inr imputed_df"
proof -
  have "MissingImpute_init impute_ref None =
        \<lparr>config = impute_ref, reference = impute_ref, apply_list = [''x'']\<rparr>"
    by (simp add: MissingImpute_init_def impute_simps)
  moreover have "MissingImpute_apply ext \<lparr>config = impute_ref, reference = impute_ref, apply_list = [''x'']\<rparr>
     impute_df = Inr imputed_df"
    by (simp add: MissingImpute_apply_def missing_vars_def impute_simps)
  ultimately show ?thesis
    by (simp add: Tactic_apply_def Tactic_init_def compile_def ebind_simps)
qed

text \<open>
  C9: with the single numerical variable \<open>x\<close> in the model, no other stage enabled and
  \<open>Missing_Impute = 'mean'\<close>, fitting on \<open>[1, 2, missing, 4]\<close> resolves the imputation
  value to 7/3 and applying yields \<open>[1, 2, 7/3, 4]\<close>, both with the MissingImpute
  component alone and through the orchestrator with the process list \<open>[MissingImpute]\<close>,
  whatever the library parameters are.
\<close>

theorem impute_mean_end_to_end:
  "MissingImpute_fit ext (MissingImpute_init impute_cfg None) impute_df =
     Inr \<lparr>config = impute_cfg, reference = impute_ref, apply_list = [''x'']\<rparr>
   \<and> map Missing_Impute (rows impute_ref) = [Num (7 / 3)]
   \<and> MissingImpute_apply ext \<lparr>config = impute_cfg, reference = impute_ref, apply_list = [''x'']\<rparr>
       impute_df = Inr imputed_df
   \<and> Tactic_fit ext (Tactic_init impute_cfg (Some [MissingImpute]) None None) impute_df =
       (Inr impute_ref,
        (Tactic_init impute_cfg (Some [MissingImpute]) None None)\<lparr>tactic_reference := impute_ref\<rparr>,
        impute_df)
   \<and> Tactic_apply ext
       ((Tactic_init impute_cfg (Some [MissingImpute]) None None)\<lparr>tactic_reference := impute_ref\<rparr>)
       impute_df = Inr imputed_df
   \<and> map_of imputed_df ''x'' = Some \<lparr>dtype = Float64, cells = [Num 1, Num 2, Num (7 / 3), Num 4]\<rparr>"
  by (simp add: ex_MissingImpute_fit ex_MissingImpute_apply ex_Tactic_fit ex_Tactic_apply)
     (simp add: impute_ref_def imputed_df_def)

section \<open>The configuration check\<close>

lemma check_impute_id: "check_impute cfg vars cnt = cnt"
  by (induction vars arbitrary: cnt) (simp_all add: Let_def)

lemma check_cap_floor_mono: "check_cap_floor cfg vars cnt = Inr n \<Longrightarrow> cnt \<le> n"
proof (induction vars arbitrary: cnt)
  case Nil
  then show ?case by simp
next
  case (Cons v vs)
  from Cons.prems obtain r where "iloc0 (rows_of cfg v) = Inr r"
    and "check_cap_floor cfg vs (if Ind_Cap r = 1 \<or> Ind_Floor r = 1 then cnt + 1 else cnt) = Inr n"
    by (auto simp: ebind_Inr_iff split: if_splits)
  from Cons.IH[OF this(2)] show ?case by (simp split: if_splits)
qed

lemma check_cap_floor_same:
  "check_cap_floor cfg vars cnt = Inr cnt \<longleftrightarrow>
     list_all (\<lambda>v. \<exists>r. iloc0 (rows_of cfg v) = Inr r \<and> Ind_Cap r \<noteq> 1 \<and> Ind_Floor r \<noteq> 1) vars"
proof (induction vars)
  case Nil
  then show ?case by simp
next
  case (Cons v vs)
  show ?case
  proof (cases "iloc0 (rows_of cfg v)")
    case (Inl e)
    then show ?thesis by (simp add: ebind_simps)
  next
    case (Inr r)
    show ?thesis
    proof (cases "Ind_Cap r = 1 \<or> Ind_Floor r = 1")
      case True
      with Inr have "check_cap_floor cfg (v # vs) cnt = check_cap_floor cfg vs (cnt + 1)"
        by (auto simp: ebind_simps)
      moreover have "check_cap_floor cfg vs (cnt + 1) \<noteq> Inr cnt"
        using check_cap_floor_mono[of cfg vs "cnt + 1" cnt] by auto
      ultimately show ?thesis using Inr True by auto
    next
      case False
      with Inr have "check_cap_floor cfg (v # vs) cnt = check_cap_floor cfg vs cnt"
        by (auto simp: ebind_simps)
      with Cons.IH Inr False show ?thesis by auto
    qed
  qed
qed

lemma check_var_type_step:
  "check_var_type nl cl df (v # vs) cnt =
     (if var_type_ok nl cl df v then check_var_type nl cl df vs cnt
      else if v \<notin> set nl \<and> v \<notin> set cl then check_var_type nl cl df vs (cnt + 1)
      else case map_of df v of None \<Rightarrow> Inl (KeyError v)
           | Some c \<Rightarrow> check_var_type nl cl df vs (cnt + 1))"
  by (auto simp: var_type_ok_def ebind_def df_col_def split: option.splits)

lemma check_var_type_mono: "check_var_type nl cl df vars cnt = Inr n \<Longrightarrow> cnt \<le> n"
proof (induction vars arbitrary: cnt)
  case Nil
  then show ?case by simp
next
  case (Cons v vs)
  from Cons.prems have "check_var_type nl cl df vs cnt = Inr n \<or>
     check_var_type nl cl df vs (cnt + 1) = Inr n"
    unfolding check_var_type_step by (auto split: if_splits option.splits)
  then show ?case using Cons.IH by fastforce
qed

lemma check_var_type_same:
  "check_var_type nl cl df vars cnt = Inr cnt \<longleftrightarrow> list_all (var_type_ok nl cl df) vars"
proof (induction vars)
  case Nil
  then show ?case by simp
next
  case (Cons v vs)
  have no: "check_var_type nl cl df vs (cnt + 1) \<noteq> Inr cnt"
    using check_var_type_mono[of nl cl df vs "cnt + 1" cnt] by auto
  show ?case
    unfolding check_var_type_step using Cons.IH no
    by (auto split: option.splits)
qed

lemma check_config_zero:
  "check_config_file self df = Inr 0 \<longleftrightarrow>
     header_allowed (tactic_config self) \<and> names_exist (tactic_config self) df \<and>
     list_all (var_type_ok
         (map Var_Name (filter (\<lambda>r. Var_Type r = ''numerical'') (rows (tactic_config self))))
         (map Var_Name (filter (\<lambda>r. Var_Type r = ''categorical'') (rows (tactic_config self)))) df)
       (map Var_Name (rows (tactic_config self))) \<and>
     list_all (\<lambda>v. \<exists>r. iloc0 (rows_of (tactic_config self) v) = Inr r \<and> Ind_Cap r \<noteq> 1 \<and> Ind_Floor r \<noteq> 1)
       (map Var_Name (filter (\<lambda>r. Var_Type r = ''categorical'') (rows (tactic_config self))))"
  (is "?L \<longleftrightarrow> ?H \<and> ?N \<and> ?T \<and> ?C")
proof -
  let ?cfg = "tactic_config self"
  let ?nl = "map Var_Name (filter (\<lambda>r. Var_Type r = ''numerical'') (rows ?cfg))"
  let ?cl = "map Var_Name (filter (\<lambda>r. Var_Type r = ''categorical'') (rows ?cfg))"
  let ?cnt0 = "if filter (\<lambda>col. col \<notin> set allow_header) (header ?cfg) \<noteq> [] then 1 else (0::nat)"
  let ?cnt1 = "if filter (\<lambda>var. var \<notin> set (df_columns df)) (map Var_Name (rows ?cfg)) \<noteq> []
               then ?cnt0 + 1 else ?cnt0"
  have unf: "check_config_file self df =
      ebind (check_var_type ?nl ?cl df (map Var_Name (rows ?cfg)) ?cnt1) (\<lambda>cnt2.
        check_cap_floor ?cfg ?cl cnt2)"
    by (simp add: check_config_file_def Let_def check_impute_id ebind_def split: sum.splits)
  have H: "?H \<longleftrightarrow> ?cnt0 = 0"
    by (auto simp: header_allowed_def list_all_iff filter_empty_conv)
  have N: "?N \<longleftrightarrow> ?cnt1 = ?cnt0"
    by (auto simp: names_exist_def list_all_iff filter_empty_conv)
  show ?thesis
  proof
    assume L: ?L
    then obtain cnt2 where
      a: "check_var_type ?nl ?cl df (map Var_Name (rows ?cfg)) ?cnt1 = Inr cnt2"
      and b: "check_cap_floor ?cfg ?cl cnt2 = Inr 0"
      unfolding unf by (auto simp: ebind_Inr_iff)
    from check_cap_floor_mono[OF b] have c2: "cnt2 = 0" by simp
    from check_var_type_mono[OF a] c2 have c1: "?cnt1 = 0" by simp
    then have c0: "?cnt0 = 0" by (simp split: if_splits)
    from c1 c0 have "?cnt1 = ?cnt0" by simp
    moreover from a c1 c2 have ?T by (simp only: check_var_type_same)
    moreover from b c2 have ?C by (simp only: check_cap_floor_same)
    ultimately show "?H \<and> ?N \<and> ?T \<and> ?C" using c0 H N by blast
  next
    assume R: "?H \<and> ?N \<and> ?T \<and> ?C"
    with H N have c1: "?cnt1 = 0" by simp
    from R have "check_var_type ?nl ?cl df (map Var_Name (rows ?cfg)) 0 = Inr 0"
      by (simp only: check_var_type_same)
    moreover from R have "check_cap_floor ?cfg ?cl 0 = Inr 0"
      by (simp only: check_cap_floor_same)
    ultimately show ?L unfolding unf c1 by (simp add: ebind_simps)
  qed
qed

lemma distinct_name_filter:
  assumes "distinct (map Var_Name rs)" and "r \<in> set rs"
  shows "Var_Name r \<in> set (map Var_Name (filter P rs)) \<longleftrightarrow> P r"
proof
  assume "Var_Name r \<in> set (map Var_Name (filter P rs))"
  then obtain r' where r': "r' \<in> set rs" "P r'" "Var_Name r' = Var_Name r" by auto
  with assms have "r' = r" by (meson distinct_map inj_onD)
  with r' show "P r" by simp
next
  assume "P r"
  with assms(2) show "Var_Name r \<in> set (map Var_Name (filter P rs))" by auto
qed

lemma distinct_key_filter:
  "distinct (map f xs) \<Longrightarrow> x \<in> set xs \<Longrightarrow> filter (\<lambda>y. f y = f x) xs = [x]"
proof (induction xs)
  case Nil
  then show ?case by simp
next
  case (Cons a as)
  show ?case
  proof (cases "x = a")
    case True
    with Cons.prems have "f x \<notin> f ` set as" by simp
    then have "\<forall>y\<in>set as. f y \<noteq> f x" by (metis imageI)
    then have "filter (\<lambda>y. f y = f x) as = []" by (simp add: filter_empty_conv)
    with True show ?thesis by simp
  next
    case False
    with Cons.prems have x: "x \<in> set as" and d: "distinct (map f as)" by auto
    from Cons.prems have "f a \<notin> f ` set as" by simp
    with x have "f a \<noteq> f x" by (metis imageI)
    with Cons.IH[OF d x] show ?thesis by simp
  qed
qed

lemma distinct_rows_of:
  assumes "distinct (map Var_Name (rows cfg))" and "r \<in> set (rows cfg)"
  shows "iloc0 (rows_of cfg (Var_Name r)) = Inr r"
  using distinct_key_filter[OF assms] by (simp add: rows_of_def iloc0_def)

text \<open>
  C3, as amended: for a config with unique variable names whose numerical imputation
  tokens are well-formed, check_config_file returns 0 exactly when every column name of
  the config is in the allowed schema, every configured variable exists in the dataset,
  every variable is declared numerical with a numeric dtype or categorical with a string
  or object dtype, and no categorical variable has cap or floor enabled.
\<close>

theorem check_config_zero_iff:
  assumes "distinct (map Var_Name (rows (tactic_config self)))"
    and "impute_tokens_well_formed (tactic_config self)"
  shows "check_config_file self df_master = Inr 0 \<longleftrightarrow>
           header_allowed (tactic_config self) \<and> names_exist (tactic_config self) df_master \<and>
           types_match (tactic_config self) df_master \<and>
           no_categorical_cap_floor (tactic_config self)"
proof -
  let ?cfg = "tactic_config self"
  let ?nl = "map Var_Name (filter (\<lambda>r. Var_Type r = ''numerical'') (rows ?cfg))"
  let ?cl = "map Var_Name (filter (\<lambda>r. Var_Type r = ''categorical'') (rows ?cfg))"
  note d = assms(1)
  have T: "list_all (var_type_ok ?nl ?cl df_master) (map Var_Name (rows ?cfg))
           \<longleftrightarrow> types_match ?cfg df_master"
  proof -
    have "var_type_ok ?nl ?cl df_master (Var_Name r) \<longleftrightarrow>
          (case map_of df_master (Var_Name r) of
                      None \<Rightarrow> False
                    | Some c \<Rightarrow>
                        (Var_Type r = ''numerical'' \<and> dtype c \<in> set num_type_list)
                        \<or> (Var_Type r = ''categorical'' \<and> dtype c \<in> set cag_type_list))"
      if "r \<in> set (rows ?cfg)" for r
      unfolding var_type_ok_def distinct_name_filter[OF d that]
      by (auto split: option.splits)
    then show ?thesis by (simp add: types_match_def list_all_iff)
  qed
  have C: "list_all (\<lambda>v. \<exists>r. iloc0 (rows_of ?cfg v) = Inr r \<and> Ind_Cap r \<noteq> 1 \<and> Ind_Floor r \<noteq> 1) ?cl
           \<longleftrightarrow> no_categorical_cap_floor ?cfg"
    by (auto simp: no_categorical_cap_floor_def list_all_iff distinct_rows_of[OF d])
  show ?thesis unfolding check_config_zero T C ..
qed

theorem check_config_zero_iff_witness:
  "distinct (map Var_Name (rows (tactic_config (Tactic_init impute_cfg None None None))))
   \<and> impute_tokens_well_formed (tactic_config (Tactic_init impute_cfg None None None))
   \<and> check_config_file (Tactic_init impute_cfg None None None) impute_df = Inr 0
   \<and> header_allowed impute_cfg \<and> names_exist impute_cfg impute_df
   \<and> types_match impute_cfg impute_df \<and> no_categorical_cap_floor impute_cfg"
proof -
  have d: "distinct (map Var_Name (rows (tactic_config (Tactic_init impute_cfg None None None))))"
    by (simp add: Tactic_init_def impute_cfg_def)
  have w: "impute_tokens_well_formed (tactic_config (Tactic_init impute_cfg None None None))"
    by (simp add: Tactic_init_def impute_tokens_well_formed_def impute_cfg_def impute_row_def)
  have c: "tactic_config (Tactic_init impute_cfg None None None) = impute_cfg"
    by (simp add: Tactic_init_def)
  have r: "header_allowed impute_cfg \<and> names_exist impute_cfg impute_df
   \<and> types_match impute_cfg impute_df \<and> no_categorical_cap_floor impute_cfg"
    by (simp add: header_allowed_def names_exist_def types_match_def no_categorical_cap_floor_def
        df_columns_def num_type_list_def impute_cfg_def impute_row_def impute_df_def
        list_all_iff)
  from check_config_zero_iff [OF d w, of impute_df] d w r show ?thesis
    unfolding c by blast
qed

text \<open>
  The claim as stated fails on a config that carries the columns of a fitted reference
  table: the variable exists, its type matches, it is not categorical and its imputation
  value is no string, yet the header check counts one error.
\<close>

theorem check_config_header_counterexample:
  "check_config_file (Tactic_init ex_ref None None None) ex_df = Inr 1
   \<and> names_exist ex_ref ex_df \<and> types_match ex_ref ex_df
   \<and> no_categorical_cap_floor ex_ref \<and> impute_tokens_well_formed ex_ref"
  by (simp add: check_config_file_def Tactic_init_def names_exist_def types_match_def
      no_categorical_cap_floor_def impute_tokens_well_formed_def df_columns_def
      num_type_list_def cag_type_list_def ex_simps)

text \<open>
  The imputation loop never counts: the token \<open>'average'\<close> of a numerical variable
  passes the check.
\<close>

lemma check_config_accepts_bad_token:
  "check_config_file (Tactic_init bad_token_cfg None None None) impute_df = Inr 0
   \<and> \<not> impute_tokens_well_formed bad_token_cfg"
  by (simp add: check_config_file_def Tactic_init_def impute_tokens_well_formed_def
      df_columns_def num_type_list_def cag_type_list_def bad_token_cfg_def impute_simps)

section \<open>Tactic.fit and the config check\<close>

text \<open>
  C7: when check_config_file reports one or more errors, Tactic.fit raises "Must pass
  config check before fit!" and leaves the orchestrator, its reference table included,
  and the caller's dataset as they were. The outcome is the same for every process list
  and every library parameter: no component is built, fitted or applied.
\<close>

theorem Tactic_fit_config_errors:
  assumes "check_config_file self df_master = Inr error_cnt" and "error_cnt > 0"
  shows "Tactic_fit ext self df_master = (Inl ConfigCheckFailed, self, df_master)"
  using assms by (simp add: Tactic_fit_def)

lemma ex_check_bad: "check_config_file (Tactic_init ex_ref (Some [Cap, Floor]) None None) ex_df = Inr 1"
  by (simp add: check_config_file_def Tactic_init_def df_columns_def num_type_list_def
      cag_type_list_def ex_simps)

theorem Tactic_fit_config_errors_witness:
  "check_config_file (Tactic_init ex_ref (Some [Cap, Floor]) None None) ex_df = Inr 1
   \<and> (1::nat) > 0
   \<and> Tactic_fit ex_ext (Tactic_init ex_ref (Some [Cap, Floor]) None None) ex_df =
       (Inl ConfigCheckFailed, Tactic_init ex_ref (Some [Cap, Floor]) None None, ex_df)"
proof -
  have pos: "(1::nat) > 0" by simp
  from Tactic_fit_config_errors [OF ex_check_bad pos, of ex_ext] ex_check_bad pos
  show ?thesis by blast
qed

section \<open>Woe.apply\<close>

lemma df_columns_assign: "set (df_columns (df_assign df var vs)) = insert var (set (df_columns df))"
  by (simp add: df_columns_def df_assign_def dom_update split: option.splits)

lemma df_columns_drop: "set (df_columns (df_drop df names)) = set (df_columns df) - set names"
  by (auto simp: df_columns_def df_drop_def)

lemma set_unique: "set (unique xs) = set xs"
  by (simp add: unique_def)

lemma apply_bins_Inl: "apply_bins bv p df ref v = Inl e \<Longrightarrow> \<exists>n. e = KeyError n"
  by (auto simp: apply_bins_def ebind_Inl_iff df_col_def split: option.splits)

lemma apply_bins_Inr:
  "apply_bins bv p df ref v = Inr d \<Longrightarrow> \<exists>vs. d = df_assign df (p @ v) vs"
  by (auto simp: apply_bins_def ebind_Inr_iff)

lemma Woe_apply_loop_Inl:
  "Woe_apply_loop (apply_bins bv p) ref vars df = Inl e \<Longrightarrow> \<exists>n. e = KeyError n"
proof (induction vars arbitrary: df)
  case Nil
  then show ?case by simp
next
  case (Cons v vs)
  then show ?case by (auto simp: ebind_Inl_iff dest: apply_bins_Inl)
qed

lemma Woe_apply_loop_columns:
  "Woe_apply_loop (apply_bins bv p) ref vars df = Inr df' \<Longrightarrow>
     set (df_columns df') = set (df_columns df) \<union> (\<lambda>v. p @ v) ` set vars"
proof (induction vars arbitrary: df)
  case Nil
  then show ?case by simp
next
  case (Cons v vs)
  from Cons.prems obtain vals where
    rest: "Woe_apply_loop (apply_bins bv p) ref vs (df_assign df (p @ v) vals) = Inr df'"
    by (auto simp: ebind_Inr_iff dest: apply_bins_Inr)
  from Cons.IH[OF rest] show ?case by (auto simp: df_columns_assign)
qed

text \<open>
  C8, as amended: Woe.apply raises "Reference table missing!" exactly when no WOE
  reference table is present. When it returns a dataset, a table is present and the
  columns of the result are those of the input, together with \<open>"nwoe_"+name\<close> for every
  apply-list variable that has a numerical row in the reference table and
  \<open>"cwoe_"+name\<close> for every one that has a categorical row, less every name of the apply
  list: no original column of an apply-list variable is left, and the variables that have
  rows in the table are the ones replaced by a prefixed column.
\<close>

theorem Woe_apply_columns:
  "(Woe_apply ext self df_master = Inl ReferenceMissing \<longleftrightarrow> woe_reference self = None)
   \<and> (Woe_apply ext self df_master = Inr df' \<longrightarrow>
        (\<exists>ref. woe_reference self = Some ref \<and>
           set (df_columns df') =
             (set (df_columns df_master)
              \<union> {''nwoe_'' @ woe_Var_Name r | r. r \<in> set ref
                    \<and> woe_Var_Name r \<in> set (woe_apply_list self) \<and> woe_Var_Type r = ''numerical''}
              \<union> {''cwoe_'' @ woe_Var_Name r | r. r \<in> set ref
                    \<and> woe_Var_Name r \<in> set (woe_apply_list self) \<and> woe_Var_Type r = ''categorical''})
             - set (woe_apply_list self)))"
proof (intro conjI impI)
  show "Woe_apply ext self df_master = Inl ReferenceMissing \<longleftrightarrow> woe_reference self = None"
  proof
    assume "woe_reference self = None"
    then show "Woe_apply ext self df_master = Inl ReferenceMissing" by (simp add: Woe_apply_def)
  next
    assume a: "Woe_apply ext self df_master = Inl ReferenceMissing"
    show "woe_reference self = None"
    proof (rule ccontr)
      assume "woe_reference self \<noteq> None"
      then obtain ref where "woe_reference self = Some ref" by auto
      with a show False
        by (auto simp: Woe_apply_def Let_def ebind_Inl_iff numwoe_apply_def catwoe_apply_def
                 dest: Woe_apply_loop_Inl)
    qed
  qed
next
  assume ok: "Woe_apply ext self df_master = Inr df'"
  then obtain ref where ref: "woe_reference self = Some ref"
    by (cases "woe_reference self") (auto simp: Woe_apply_def)
  let ?al = "woe_apply_list self"
  let ?wr = "filter (\<lambda>r. woe_Var_Name r \<in> set ?al) ref"
  let ?num = "filter (\<lambda>r. woe_Var_Type r = ''numerical'') ?wr"
  let ?cag = "filter (\<lambda>r. woe_Var_Type r = ''categorical'') ?wr"
  from ok ref obtain df1 df2 where
    n: "Woe_apply_loop (apply_bins (num_bin_value ext) ''nwoe_'') ?num
          (unique (map woe_Var_Name ?num)) df_master = Inr df1"
    and c: "Woe_apply_loop (apply_bins (cat_bin_value ext) ''cwoe_'') ?cag
          (unique (map woe_Var_Name ?cag)) df1 = Inr df2"
    and d: "df' = df_drop df2 ?al"
    by (auto simp: Woe_apply_def Let_def ebind_Inr_iff numwoe_apply_def catwoe_apply_def)
  have "set (df_columns df') =
      (set (df_columns df_master) \<union> (\<lambda>v. ''nwoe_'' @ v) ` set (map woe_Var_Name ?num)
        \<union> (\<lambda>v. ''cwoe_'' @ v) ` set (map woe_Var_Name ?cag)) - set ?al"
    unfolding d df_columns_drop Woe_apply_loop_columns[OF c] Woe_apply_loop_columns[OF n] set_unique
    by simp
  also have "(\<lambda>v. ''nwoe_'' @ v) ` set (map woe_Var_Name ?num) =
      {''nwoe_'' @ woe_Var_Name r | r. r \<in> set ref
                    \<and> woe_Var_Name r \<in> set ?al \<and> woe_Var_Type r = ''numerical''}"
    by auto
  also have "(\<lambda>v. ''cwoe_'' @ v) ` set (map woe_Var_Name ?cag) =
      {''cwoe_'' @ woe_Var_Name r | r. r \<in> set ref
                    \<and> woe_Var_Name r \<in> set ?al \<and> woe_Var_Type r = ''categorical''}"
    by auto
  finally show "\<exists>ref. woe_reference self = Some ref \<and>
           set (df_columns df') =
             (set (df_columns df_master)
              \<union> {''nwoe_'' @ woe_Var_Name r | r. r \<in> set ref
                    \<and> woe_Var_Name r \<in> set (woe_apply_list self) \<and> woe_Var_Type r = ''numerical''}
              \<union> {''cwoe_'' @ woe_Var_Name r | r. r \<in> set ref
                    \<and> woe_Var_Name r \<in> set (woe_apply_list self) \<and> woe_Var_Type r = ''categorical''})
             - set (woe_apply_list self)"
    using ref by blast
qed

lemmas woe_simps =
  Woe_apply_def numwoe_apply_def catwoe_apply_def apply_bins_def unique_def df_drop_def
  df_columns_def xz_df_def ex_ext_def ebind_def df_col_def df_assign_def

lemma ex_Woe_apply_x:
  "Woe_apply ex_ext woe_x xz_df =
     Inr [(''z'', \<lparr>dtype = Float64, cells = [Num 0, Num 5]\<rparr>),
          (''nwoe_x'', \<lparr>dtype = Float64, cells = [NaN, NaN]\<rparr>)]"
  by (simp add: woe_x_def woe_simps)

theorem Woe_apply_columns_witness:
  "Woe_apply ex_ext woe_x xz_df =
     Inr [(''z'', \<lparr>dtype = Float64, cells = [Num 0, Num 5]\<rparr>),
          (''nwoe_x'', \<lparr>dtype = Float64, cells = [NaN, NaN]\<rparr>)]
   \<and> woe_reference woe_x \<noteq> None
   \<and> Woe_apply ex_ext woe_x xz_df \<noteq> Inl ReferenceMissing"
proof -
  have r: "woe_reference woe_x \<noteq> None" by (simp add: woe_x_def)
  from Woe_apply_columns [of ex_ext woe_x xz_df
      "[(''z'', \<lparr>dtype = Float64, cells = [Num 0, Num 5]\<rparr>),
        (''nwoe_x'', \<lparr>dtype = Float64, cells = [NaN, NaN]\<rparr>)]"]
    ex_Woe_apply_x r
  show ?thesis by blast
qed

text \<open>
  The claim as stated fails when the table is present but has no row of an apply-list
  variable: the column \<open>x\<close> is dropped and no prefixed column takes its place.
\<close>

theorem Woe_apply_uncovered_counterexample:
  "woe_reference woe_other \<noteq> None \<and> woe_apply_list woe_other = [''x'']
   \<and> Woe_apply ex_ext woe_other xz_df = Inr [(''z'', \<lparr>dtype = Float64, cells = [Num 0, Num 5]\<rparr>)]
   \<and> ''nwoe_x'' \<notin> set (df_columns [(''z'', \<lparr>dtype = Float64, cells = [Num 0, Num 5]\<rparr>)])
   \<and> ''cwoe_x'' \<notin> set (df_columns [(''z'', \<lparr>dtype = Float64, cells = [Num 0, Num 5]\<rparr>)])"
  by (simp add: woe_other_def woe_simps)

section \<open>The correlation filter\<close>

lemma labels_mark [simp]: "labels (mark idx m) = labels m"
  by (simp add: mark_def)

lemma val_mark: "val (mark idx m) r c = (if r = idx \<or> c = idx then Some (- 1) else val m r c)"
  by (simp add: mark_def)

lemma labels_scan_cell [simp]: "labels (scan_cell t col idx m) = labels m"
  by (simp add: scan_cell_def)

lemma labels_fold_scan_cell [simp]: "labels (fold (scan_cell t col) idxs m) = labels m"
  by (induction idxs arbitrary: m) simp_all

lemma labels_scan_column [simp]: "labels (scan_column t col m) = labels m"
  by (simp add: scan_column_def)

lemma labels_fold_scan_column [simp]: "labels (fold (scan_column t) cols m) = labels m"
  by (induction cols arbitrary: m) simp_all

lemma scan_as_one_pass:
  "labels m = L \<Longrightarrow>
   fold (scan_column t) cols m = fold (\<lambda>(col, idx). scan_cell t col idx) (List.product cols L) m"
proof (induction cols arbitrary: m)
  case Nil
  then show ?case by simp
next
  case (Cons c cs)
  have "fold (\<lambda>(col, idx). scan_cell t col idx) (map (Pair c) L) m = scan_column t c m"
    using Cons.prems by (simp add: scan_column_def fold_map comp_def)
  moreover have "labels (scan_column t c m) = L" using Cons.prems by simp
  ultimately show ?case using Cons.IH by simp
qed

lemma val_fold_scan_cell:
  "val (fold (scan_cell t col) idxs m) r c =
     (if r \<in> set (trace_column t col idxs m) \<or> c \<in> set (trace_column t col idxs m)
      then Some (- 1) else val m r c)"
proof (induction idxs arbitrary: m)
  case Nil
  then show ?case by simp
next
  case (Cons i js)
  show ?case
  proof (cases "exceeds (val m i col) t")
    case True
    then show ?thesis using Cons.IH[of "mark i m"] by (auto simp: scan_cell_def val_mark)
  next
    case False
    then show ?thesis using Cons.IH[of m] by (simp add: scan_cell_def)
  qed
qed

lemma val_fold_scan_column:
  "val (fold (scan_column t) cols m) r c =
     (if r \<in> fst ` set (trace_scan t cols m) \<or> c \<in> fst ` set (trace_scan t cols m)
      then Some (- 1) else val m r c)"
proof (induction cols arbitrary: m)
  case Nil
  then show ?case by simp
next
  case (Cons col cols)
  have "fst ` set (trace_scan t (col # cols) m) =
        set (trace_column t col (labels m) m) \<union> fst ` set (trace_scan t cols (scan_column t col m))"
    by (auto simp: image_Un image_comp comp_def)
  then show ?case
    using Cons.IH[of "scan_column t col m"]
    by (auto simp: scan_column_def val_fold_scan_cell)
qed

lemma val_scan:
  "val (scan t m) r c = (if r \<in> marked t m \<or> c \<in> marked t m then Some (- 1) else val m r c)"
  by (simp add: scan_def marked_def firing_cells_def val_fold_scan_column)

lemma scan_clean_mono: "scan_clean t corr0 E D R \<Longrightarrow> E \<subseteq> E' \<Longrightarrow> scan_clean t corr0 E' D R"
  unfolding scan_clean_def by blast

lemma not_exceeds_sentinel: "- 1 \<le> t \<Longrightarrow> \<not> exceeds (Some (- 1)) t"
  by simp

lemma column_step:
  assumes sym: "\<forall>r c. val corr0 r c = val corr0 c r" and t: "- 1 \<le> t"
    and col: "col \<in> R"
  shows "scan_inv corr0 E m \<Longrightarrow> scan_clean t corr0 E D R \<Longrightarrow>
     scan_inv corr0 (E \<union> set (trace_column t col idxs m)) (fold (scan_cell t col) idxs m)
     \<and> set (trace_column t col idxs m) \<inter> D = {}
     \<and> scan_clean t corr0 (E \<union> set (trace_column t col idxs m)) {col} (set idxs)"
proof (induction idxs arbitrary: m E)
  case Nil
  then show ?case by (simp add: scan_clean_def)
next
  case (Cons i js)
  show ?case
  proof (cases "exceeds (val m i col) t")
    case True
    with Cons.prems(1) t have iE: "i \<notin> E" and cE: "col \<notin> E"
      and ex: "exceeds (val corr0 i col) t"
      by (auto simp: scan_inv_def split: if_splits)
    have iD: "i \<notin> D"
    proof
      assume "i \<in> D"
      with Cons.prems(2) col have "col \<in> E \<or> i \<in> E \<or> \<not> exceeds (val corr0 col i) t"
        by (auto simp: scan_clean_def)
      with iE cE ex sym show False by auto
    qed
    have inv1: "scan_inv corr0 (insert i E) (mark i m)"
      using Cons.prems(1) by (auto simp: scan_inv_def val_mark)
    have clean1: "scan_clean t corr0 (insert i E) D R"
      using Cons.prems(2) by (rule scan_clean_mono) auto
    from Cons.IH[OF inv1 clean1] True iD show ?thesis
      by (auto simp: scan_cell_def scan_clean_def)
  next
    case False
    with Cons.prems(1) have here: "i \<in> E \<or> col \<in> E \<or> \<not> exceeds (val corr0 i col) t"
      by (auto simp: scan_inv_def split: if_splits)
    from Cons.IH[OF Cons.prems] False here show ?thesis
      by (auto simp: scan_cell_def scan_clean_def)
  qed
qed

lemma before_subset: "set (before (pre @ col # cols) col) \<subseteq> set pre"
  unfolding before_def by (induction pre) auto

lemma scan_step:
  assumes sym: "\<forall>r c. val corr0 r c = val corr0 c r" and t: "- 1 \<le> t"
  shows "scan_inv corr0 E m \<Longrightarrow> scan_clean t corr0 E (set pre) (set L) \<Longrightarrow> labels m = L \<Longrightarrow>
     set cols \<subseteq> set L \<Longrightarrow>
     \<forall>(idx, col) \<in> set (trace_scan t cols m). idx \<notin> set (before (pre @ cols) col)"
proof (induction cols arbitrary: m E pre)
  case Nil
  then show ?case by simp
next
  case (Cons c cs)
  let ?T = "trace_column t c L m"
  let ?m1 = "scan_column t c m"
  from Cons.prems(4) have cL: "c \<in> set L" by simp
  from column_step[OF sym t cL Cons.prems(1,2), of L]
  have inv1: "scan_inv corr0 (E \<union> set ?T) ?m1"
    and dis: "set ?T \<inter> set pre = {}"
    and cl: "scan_clean t corr0 (E \<union> set ?T) {c} (set L)"
    using Cons.prems(3) by (auto simp: scan_column_def)
  have "scan_clean t corr0 (E \<union> set ?T) (set pre) (set L)"
    using Cons.prems(2) by (rule scan_clean_mono) auto
  with cl have clean1: "scan_clean t corr0 (E \<union> set ?T) (set (pre @ [c])) (set L)"
    by (auto simp: scan_clean_def)
  have l1: "labels ?m1 = L" using Cons.prems(3) by simp
  from Cons.prems(4) have sub: "set cs \<subseteq> set L" by simp
  from Cons.IH[OF inv1 clean1 l1 sub]
  have rest: "\<forall>(idx, col) \<in> set (trace_scan t cs ?m1). idx \<notin> set (before (pre @ c # cs) col)"
    by simp
  have "idx \<notin> set (before (pre @ c # cs) c)" if "idx \<in> set ?T" for idx
    using that dis before_subset[of pre c cs] by auto
  with rest Cons.prems(3) show ?case by auto
qed

lemma firing_row_not_before:
  assumes "\<forall>r c. val corr r c = val corr c r" and "- 1 \<le> t"
    and "(idx, col) \<in> set (firing_cells t corr)"
  shows "idx \<notin> set (before (labels corr) col)"
proof -
  have "scan_inv corr {} corr" by (simp add: scan_inv_def)
  moreover have "scan_clean t corr {} (set []) (set (labels corr))" by (simp add: scan_clean_def)
  ultimately have "\<forall>(idx, col) \<in> set (trace_scan t (labels corr) corr).
      idx \<notin> set (before ([] @ labels corr) col)"
    using scan_step[OF assms(1,2), of "{}" corr "[]" "labels corr" "labels corr"] by simp
  with assms(3) show ?thesis by (auto simp: firing_cells_def)
qed

lemma labels_filt_corr:
  assumes "\<forall>v\<in>set (labels corr). val corr v v \<noteq> Some (- 1)"
  shows "labels (filt_corr corr t) = filter (\<lambda>v. v \<notin> marked t corr) (labels corr)"
proof -
  have "picked (scan t corr) v \<longleftrightarrow> v \<notin> marked t corr" if "v \<in> set (labels corr)" for v
  proof
    assume "picked (scan t corr) v"
    then show "v \<notin> marked t corr"
      by (auto simp: picked_def list_ex_iff val_scan split: if_splits)
  next
    assume "v \<notin> marked t corr"
    with that assms have "val (scan t corr) v v \<noteq> Some (- 1)" by (simp add: val_scan)
    with that show "picked (scan t corr) v"
      by (auto simp: picked_def list_ex_iff scan_def)
  qed
  then show ?thesis
    by (auto simp: filt_corr_def Let_def scan_def intro: filter_cong)
qed

lemma val_filt_corr:
  "val (filt_corr corr t) r c =
     (if r \<in> marked t corr \<or> c \<in> marked t corr then Some (- 1) else val corr r c)"
  by (simp add: filt_corr_def Let_def val_scan)

text \<open>
  C2, as amended: at a scanned cell, row \<open>idx\<close> and column \<open>col\<close>, whose value exceeds
  the threshold, the variable eliminated, its entire row and column set to the sentinel,
  is \<open>idx\<close>, the row label. For a symmetric matrix with no sentinel on its diagonal, as a transformed
  correlation matrix is: the scan is one pass over all cells, column by column; the
  sentinel cells after the scan are exactly those of the rows and columns of the
  eliminated labels; for a threshold of at least -1 the eliminated \<open>idx\<close> never comes
  before \<open>col\<close> in the iteration order, so it is the later member of the pair; and the
  returned matrix has the labels that were never marked, with their original cells.
\<close>

theorem filt_corr_eliminates_row:
  assumes "\<forall>r c. val corr r c = val corr c r"
    and "list_all (\<lambda>v. val corr v v \<noteq> Some (- 1)) (labels corr)"
  shows "(\<forall>m. scan_cell thresh col idx m =
           (if exceeds (val m idx col) thresh
            then m\<lparr>val := (\<lambda>r c. if r = idx \<or> c = idx then Some (- 1) else val m r c)\<rparr>
            else m))
   \<and> scan thresh corr =
       fold (\<lambda>(col, idx). scan_cell thresh col idx)
         (List.product (labels corr) (labels corr)) corr
   \<and> (\<forall>r c. val (scan thresh corr) r c =
         (if r \<in> marked thresh corr \<or> c \<in> marked thresh corr then Some (- 1)
          else val corr r c))
   \<and> (- 1 \<le> thresh \<longrightarrow>
        (\<forall>(idx, col) \<in> set (firing_cells thresh corr). idx \<notin> set (before (labels corr) col)))
   \<and> labels (filt_corr corr thresh) = filter (\<lambda>v. v \<notin> marked thresh corr) (labels corr)
   \<and> (\<forall>r \<in> set (labels (filt_corr corr thresh)).
        \<forall>c \<in> set (labels (filt_corr corr thresh)).
          val (filt_corr corr thresh) r c = val corr r c)"
proof (intro conjI)
  show "\<forall>m. scan_cell thresh col idx m =
           (if exceeds (val m idx col) thresh
            then m\<lparr>val := (\<lambda>r c. if r = idx \<or> c = idx then Some (- 1) else val m r c)\<rparr>
            else m)"
    by (simp add: scan_cell_def mark_def)
  show "scan thresh corr =
       fold (\<lambda>(col, idx). scan_cell thresh col idx)
         (List.product (labels corr) (labels corr)) corr"
    unfolding scan_def by (rule scan_as_one_pass) simp
  show "\<forall>r c. val (scan thresh corr) r c =
         (if r \<in> marked thresh corr \<or> c \<in> marked thresh corr then Some (- 1)
          else val corr r c)"
    by (simp add: val_scan)
  show "- 1 \<le> thresh \<longrightarrow>
        (\<forall>(idx, col) \<in> set (firing_cells thresh corr). idx \<notin> set (before (labels corr) col))"
    using firing_row_not_before[OF assms(1)] by blast
  have diag: "\<forall>v\<in>set (labels corr). val corr v v \<noteq> Some (- 1)"
    using assms(2) by (simp add: list_all_iff)
  show l: "labels (filt_corr corr thresh) = filter (\<lambda>v. v \<notin> marked thresh corr) (labels corr)"
    by (rule labels_filt_corr[OF diag])
  show "\<forall>r \<in> set (labels (filt_corr corr thresh)).
        \<forall>c \<in> set (labels (filt_corr corr thresh)).
          val (filt_corr corr thresh) r c = val corr r c"
    unfolding l by (simp add: val_filt_corr)
qed

lemmas scan_simps =
  scan_def scan_column_def scan_cell_def mark_def firing_cells_def filt_corr_def picked_def
  before_def

lemma abc_symmetric: "\<forall>r c. val abc r c = val abc c r"
  by (auto simp: abc_def abc_val_def)

lemma abc_firing: "firing_cells (9 / 10) abc = [(''B'', ''A'')]"
  by (simp add: abc_def abc_val_def scan_simps)

lemma abc_survivors: "labels (filt_corr abc (9 / 10)) = [''A'', ''C'']"
  by (simp add: abc_def abc_val_def scan_simps)

theorem filt_corr_eliminates_row_witness:
  "(\<forall>r c. val abc r c = val abc c r)
   \<and> list_all (\<lambda>v. val abc v v \<noteq> Some (- 1)) (labels abc)
   \<and> (- 1 :: real) \<le> 9 / 10
   \<and> firing_cells (9 / 10) abc = [(''B'', ''A'')]
   \<and> ''B'' \<notin> set (before (labels abc) ''A'')
   \<and> labels (filt_corr abc (9 / 10)) = [''A'', ''C'']"
proof -
  have d: "list_all (\<lambda>v. val abc v v \<noteq> Some (- 1)) (labels abc)"
    by (simp add: abc_def abc_val_def)
  have t: "(- 1 :: real) \<le> 9 / 10" by simp
  have b: "''B'' \<notin> set (before (labels abc) ''A'')"
    by (simp add: before_def abc_def)
  from filt_corr_eliminates_row [OF abc_symmetric d, of "9 / 10"]
    abc_symmetric d t abc_firing b abc_survivors
  show ?thesis by blast
qed

text \<open>
  The claim as stated fails on the 2 x 2 matrix with A-B 0.95 and threshold 0.9: the one
  cell above the threshold is met at column A, row B, and the scan marks B, the row, while
  the row and column of A, the \<open>col\<close> of that cell, keep their values and A is the label
  returned.
\<close>

theorem filt_corr_col_counterexample:
  "firing_cells (9 / 10) ab = [(''B'', ''A'')]
   \<and> val (scan (9 / 10) ab) ''A'' ''A'' = Some 0
   \<and> val (scan (9 / 10) ab) ''B'' ''B'' = Some (- 1)
   \<and> labels (filt_corr ab (9 / 10)) = [''A'']"
  by (simp add: ab_def scan_simps)

section \<open>Generating the correlation matrix\<close>

lemma not_all_minus_one_iff: "not_all_minus_one row \<longleftrightarrow> \<not> all_minus_one row"
  by (auto simp: not_all_minus_one_def all_minus_one_def list_ex_iff list_all_iff)

lemma transform_not_sentinel: "transform v \<noteq> Some (- 1)"
  by (cases v) auto

lemma gen_corr_no_sentinel:
  "list_all (\<lambda>v. val (gen_corr pd_corr df) v v \<noteq> Some (- 1)) (labels (gen_corr pd_corr df))"
  by (simp add: gen_corr_def Let_def list_all_iff transform_not_sentinel)

text \<open>
  C10: gen_corr computes the correlation over the rows that are left when every row whose
  cells all equal -1 is removed; such a row, wherever it stands, has no effect on the
  result; and when no row is of that kind the correlation is computed over all rows.
\<close>

theorem gen_corr_drops_minus_one_rows:
  "gen_corr pd_corr df =
     (let corr = pd_corr (df\<lparr>frame_rows := filter (\<lambda>row. \<not> all_minus_one row) (frame_rows df)\<rparr>)
      in corr\<lparr>val := (\<lambda>r c. transform (val corr r c))\<rparr>)
   \<and> (all_minus_one row \<longrightarrow>
        gen_corr pd_corr (df\<lparr>frame_rows := xs @ row # ys\<rparr>) =
        gen_corr pd_corr (df\<lparr>frame_rows := xs @ ys\<rparr>))
   \<and> (list_all (\<lambda>row. \<not> all_minus_one row) (frame_rows df) \<longrightarrow>
        gen_corr pd_corr df =
          (pd_corr df)\<lparr>val := (\<lambda>r c. transform (val (pd_corr df) r c))\<rparr>)"
proof (intro conjI impI)
  have f: "filter not_all_minus_one rs = filter (\<lambda>row. \<not> all_minus_one row) rs" for rs
    by (rule filter_cong) (simp_all add: not_all_minus_one_iff)
  show "gen_corr pd_corr df =
     (let corr = pd_corr (df\<lparr>frame_rows := filter (\<lambda>row. \<not> all_minus_one row) (frame_rows df)\<rparr>)
      in corr\<lparr>val := (\<lambda>r c. transform (val corr r c))\<rparr>)"
    by (simp add: gen_corr_def f)
  {
    assume "all_minus_one row"
    then show "gen_corr pd_corr (df\<lparr>frame_rows := xs @ row # ys\<rparr>) =
        gen_corr pd_corr (df\<lparr>frame_rows := xs @ ys\<rparr>)"
      by (simp add: gen_corr_def not_all_minus_one_iff)
  }
  {
    assume "list_all (\<lambda>row. \<not> all_minus_one row) (frame_rows df)"
    then have "filter (\<lambda>row. \<not> all_minus_one row) (frame_rows df) = frame_rows df"
      by (simp add: list_all_iff)
    then show "gen_corr pd_corr df =
          (pd_corr df)\<lparr>val := (\<lambda>r c. transform (val (pd_corr df) r c))\<rparr>"
      by (simp add: gen_corr_def f Let_def)
  }
qed

theorem gen_corr_drops_minus_one_rows_witness:
  "all_minus_one [Num (- 1), Num (- 1)]
   \<and> list_all (\<lambda>row. \<not> all_minus_one row) (frame_rows (ex_frame [[Num 1, Num (- 1)], [NaN, Num (- 1)]]))
   \<and> gen_corr row_count_corr (ex_frame [[Num 1, Num (- 1)], [Num (- 1), Num (- 1)], [NaN, Num (- 1)]])
       = gen_corr row_count_corr (ex_frame [[Num 1, Num (- 1)], [NaN, Num (- 1)]])
   \<and> val (gen_corr row_count_corr
            (ex_frame [[Num 1, Num (- 1)], [Num (- 1), Num (- 1)], [NaN, Num (- 1)]])) ''a'' ''b''
       = Some 2"
proof -
  have a: "all_minus_one [Num (- 1), Num (- 1)]" by (simp add: all_minus_one_def)
  have l: "list_all (\<lambda>row. \<not> all_minus_one row)
             (frame_rows (ex_frame [[Num 1, Num (- 1)], [NaN, Num (- 1)]]))"
    by (simp add: all_minus_one_def ex_frame_def)
  have e: "(ex_frame [[Num 1, Num (- 1)], [NaN, Num (- 1)]])
             \<lparr>frame_rows := [[Num 1, Num (- 1)]] @ [Num (- 1), Num (- 1)] # [[NaN, Num (- 1)]]\<rparr>
           = ex_frame [[Num 1, Num (- 1)], [Num (- 1), Num (- 1)], [NaN, Num (- 1)]]"
       "(ex_frame [[Num 1, Num (- 1)], [NaN, Num (- 1)]])
             \<lparr>frame_rows := [[Num 1, Num (- 1)]] @ [[NaN, Num (- 1)]]\<rparr>
           = ex_frame [[Num 1, Num (- 1)], [NaN, Num (- 1)]]"
    by (simp_all add: ex_frame_def)
  have v: "val (gen_corr row_count_corr
            (ex_frame [[Num 1, Num (- 1)], [Num (- 1), Num (- 1)], [NaN, Num (- 1)]])) ''a'' ''b''
       = Some 2"
    by (simp add: gen_corr_def row_count_corr_def ex_frame_def not_all_minus_one_def)
  from gen_corr_drops_minus_one_rows [of row_count_corr
         "ex_frame [[Num 1, Num (- 1)], [NaN, Num (- 1)]]"
         "[Num (- 1), Num (- 1)]" "[[Num 1, Num (- 1)]]" "[[NaN, Num (- 1)]]"] a l v
  show ?thesis unfolding e by blast
qed

end
